theory Spec2Isabelle
  imports Complex_Main
begin

section \<open>Values of the data grid\<close>

text \<open>
  The grid component (\<^verbatim>\<open>DataInput.tsx\<close>) works on JavaScript numbers, on arrays of
  cells typed \<^verbatim>\<open>(number | null)[]\<close> and on strings. A number is modelled as a real
  or \<^verbatim>\<open>NaN\<close>: rounding, the infinities and the sign of zero are not represented.
  An array slot can hold \<^verbatim>\<open>null\<close>, a number, \<^verbatim>\<open>undefined\<close>, or be a hole (an index
  below the length that was never written); the last two do not occur in well-typed
  input, but an assignment outside the array can produce them.
\<close>

datatype number = Num real | NaN

datatype cell = Null | Val number | Undefined | Hole

fun num_add :: "number \<Rightarrow> number \<Rightarrow> number" where
  "num_add (Num a) (Num b) = Num (a + b)"
| "num_add _ _ = NaN"

fun num_sub :: "number \<Rightarrow> number \<Rightarrow> number" where
  "num_sub (Num a) (Num b) = Num (a - b)"
| "num_sub _ _ = NaN"

fun num_neg :: "number \<Rightarrow> number" where
  "num_neg (Num a) = Num (- a)"
| "num_neg NaN = NaN"

text \<open>\<^verbatim>\<open>x / n\<close> for an array length \<^verbatim>\<open>n\<close>; only used with \<^verbatim>\<open>n > 0\<close>.\<close>

fun num_div_length :: "number \<Rightarrow> nat \<Rightarrow> number" where
  "num_div_length (Num a) n = (if n = 0 then NaN else Num (a / real n))"
| "num_div_length NaN n = NaN"

text \<open>\<^verbatim>\<open>ToNumber\<close> of a value read from an array, as the operator \<^verbatim>\<open>+\<close> applies it.\<close>

fun to_number :: "cell \<Rightarrow> number" where
  "to_number Null = Num 0"
| "to_number (Val n) = n"
| "to_number Undefined = NaN"
| "to_number Hole = NaN"

text \<open>
  A number names an array element when it is a non-negative integer below \<open>2^32 - 1\<close>;
  any other number used as a key names an ordinary property of the array object.
\<close>

definition array_index :: "number \<Rightarrow> nat option" where
  "array_index n =
     (case n of
        NaN \<Rightarrow> None
      | Num r \<Rightarrow>
          if 0 \<le> r \<and> r < 4294967295 \<and> r = of_int \<lfloor>r\<rfloor> then Some (nat \<lfloor>r\<rfloor>) else None)"

text \<open>\<^verbatim>\<open>a[i]\<close>: a hole, an index past the end and an absent property read as \<^verbatim>\<open>undefined\<close>.\<close>

definition js_get :: "cell list \<Rightarrow> number \<Rightarrow> cell" where
  "js_get a i =
     (case array_index i of
        None \<Rightarrow> Undefined
      | Some k \<Rightarrow> if k < length a then (if a ! k = Hole then Undefined else a ! k) else Undefined)"

text \<open>
  \<^verbatim>\<open>a[i] = v\<close>: an index past the end extends the array, leaving holes; a key that is
  not an array index sets a property and leaves the elements as they are (the property
  is not kept in the model: spreading and iterating the array never see it).
\<close>

definition js_set :: "cell list \<Rightarrow> number \<Rightarrow> cell \<Rightarrow> cell list" where
  "js_set a i v =
     (case array_index i of
        None \<Rightarrow> a
      | Some k \<Rightarrow> if k < length a then a[k := v] else a @ replicate (k - length a) Hole @ [v])"

text \<open>\<^verbatim>\<open>[...a]\<close>: the copy has \<^verbatim>\<open>undefined\<close> where the array has a hole.\<close>

definition spread :: "cell list \<Rightarrow> cell list" where
  "spread a = map (\<lambda>c. if c = Hole then Undefined else c) a"

text \<open>\<^verbatim>\<open>some\<close> and \<^verbatim>\<open>every\<close> do not call the predicate on holes.\<close>

definition js_some :: "(cell \<Rightarrow> bool) \<Rightarrow> cell list \<Rightarrow> bool" where
  "js_some p a = list_ex p (filter (\<lambda>c. c \<noteq> Hole) a)"

definition js_every :: "(cell \<Rightarrow> bool) \<Rightarrow> cell list \<Rightarrow> bool" where
  "js_every p a = list_all p (filter (\<lambda>c. c \<noteq> Hole) a)"

section \<open>The data set\<close>

text \<open>\<^verbatim>\<open>DataRow\<close> and \<^verbatim>\<open>UserDataState\<close> of \<^verbatim>\<open>@/types/types\<close>, as the component uses them.\<close>

record DataRow =
  data :: "cell list"
  assignment :: number

record UserDataState =
  rows :: "DataRow list"
  controlColumnIndex :: number
  columnNames :: "string list"

text \<open>
  What the component reads of the simulation context: the data set, the flag
  \<^verbatim>\<open>isSimulating\<close>, and the two stacks of snapshots behind \<^verbatim>\<open>undo\<close> and \<^verbatim>\<open>redo\<close>.
\<close>

record SimulationContext =
  userData :: UserDataState
  isSimulating :: bool
  past :: "UserDataState list"
  future :: "UserDataState list"

datatype error = LockedError | IndexError | RangeError

section \<open>The operations of the simulation context\<close>

text \<open>
  Modelled from the spec: the history manager of \<^verbatim>\<open>SimulationContext\<close>, the module
  the component imports its operations from; its code is not part of the files modelled
  here. \<^verbatim>\<open>record(previous, next)\<close> pushes the state that is left onto
  the past stack and clears the future stack.
\<close>

definition record_mutation :: "SimulationContext \<Rightarrow> UserDataState \<Rightarrow> SimulationContext" where
  "record_mutation c next =
     c\<lparr>userData := next, past := userData c # past c, future := []\<rparr>"

text \<open>
  Modelled from the spec: \<^verbatim>\<open>undo\<close> of \<^verbatim>\<open>SimulationContext\<close>. It pops the past stack,
  applies the snapshot and pushes the state just left onto the future stack; with an
  empty past stack, or while a run is in progress, it returns the unchanged state.
\<close>

definition undo :: "SimulationContext \<Rightarrow> SimulationContext" where
  "undo c =
     (if isSimulating c then c
      else case past c of
        [] \<Rightarrow> c
      | p # ps \<Rightarrow> c\<lparr>userData := p, past := ps, future := userData c # future c\<rparr>)"

text \<open>
  Modelled from the spec: \<^verbatim>\<open>redo\<close> of \<^verbatim>\<open>SimulationContext\<close>, the mirror operation
  on the future stack.
\<close>

definition redo :: "SimulationContext \<Rightarrow> SimulationContext" where
  "redo c =
     (if isSimulating c then c
      else case future c of
        [] \<Rightarrow> c
      | f # fs \<Rightarrow> c\<lparr>userData := f, past := userData c # past c, future := fs\<rparr>)"

text \<open>
  Modelled from the spec: a sequence of mutations, each recorded by the history manager;
  \<open>ds\<close> lists the data set each mutation produces.
\<close>

definition mutations :: "SimulationContext \<Rightarrow> UserDataState list \<Rightarrow> SimulationContext" where
  "mutations c ds = foldl record_mutation c ds"

text \<open>
  Modelled from the spec: \<^verbatim>\<open>setUserData\<close> of \<^verbatim>\<open>SimulationContext\<close>, a wholesale
  replacement recorded in the history; rejected with \<^verbatim>\<open>LockedError\<close> during a run.
\<close>

definition setUserData :: "UserDataState \<Rightarrow> SimulationContext \<Rightarrow> error + SimulationContext" where
  "setUserData newState c =
     (if isSimulating c then Inl LockedError else Inr (record_mutation c newState))"

text \<open>
  Modelled from the spec: \<^verbatim>\<open>addRow\<close> of \<^verbatim>\<open>SimulationContext\<close>. It appends a fresh
  fully absent row with one slot per column name; the assignment of the new row is 0, as
  in the placeholder rows the component builds itself.
\<close>

definition addRow :: "SimulationContext \<Rightarrow> error + SimulationContext" where
  "addRow c =
     (if isSimulating c then Inl LockedError
      else Inr (record_mutation c
        ((userData c)\<lparr>rows := rows (userData c) @
           [\<lparr>data = replicate (length (columnNames (userData c))) Null,
             assignment = Num 0\<rparr>]\<rparr>)))"

text \<open>
  Modelled from the spec: \<^verbatim>\<open>renameColumn\<close> of \<^verbatim>\<open>SimulationContext\<close>. The name is cut
  to 20 characters; an index that names no column fails with \<^verbatim>\<open>IndexError\<close>.
\<close>

definition renameColumn :: "nat \<Rightarrow> string \<Rightarrow> SimulationContext \<Rightarrow> error + SimulationContext" where
  "renameColumn index name c =
     (if isSimulating c then Inl LockedError
      else if length (columnNames (userData c)) \<le> index then Inl IndexError
      else Inr (record_mutation c
        ((userData c)\<lparr>columnNames := (columnNames (userData c))[index := take 20 name]\<rparr>)))"

section \<open>The data input component\<close>

text \<open>A cell of the declared type \<^verbatim>\<open>number | null\<close>.\<close>

definition typedCell :: "cell \<Rightarrow> bool" where
  "typedCell v = (case v of Null \<Rightarrow> True | Val _ \<Rightarrow> True | Undefined \<Rightarrow> False | Hole \<Rightarrow> False)"

subsection \<open>Treatment effect\<close>

text \<open>
  The body of the \<^verbatim>\<open>map\<close> callback of \<^verbatim>\<open>applyTreatmentEffect\<close> for a row that is not
  the last one.
\<close>

definition imputeRow :: "number \<Rightarrow> DataRow \<Rightarrow> DataRow" where
  "imputeRow effect row =
     (let newData = spread (data row);
          referenceIndex = assignment row;
          otherIndex = num_sub (Num 1) referenceIndex
      in if js_get newData referenceIndex \<noteq> Null then
           row\<lparr>data := js_set newData otherIndex
             (Val (num_add (to_number (js_get newData referenceIndex))
                (if referenceIndex = Num 0 then effect else num_neg effect)))\<rparr>
         else if js_get newData otherIndex \<noteq> Null then
           row\<lparr>data := js_set newData referenceIndex
             (Val (num_add (to_number (js_get newData otherIndex))
                (if referenceIndex = Num 0 then num_neg effect else effect)))\<rparr>
         else row\<lparr>data := newData\<rparr>)"

text \<open>\<^verbatim>\<open>rows.map((row, rowIndex) => ...)\<close>: the row at the last index is returned as it is.\<close>

definition imputeRows :: "number \<Rightarrow> DataRow list \<Rightarrow> DataRow list" where
  "imputeRows effect rs =
     map (\<lambda>(rowIndex, row).
            if int rowIndex = int (length rs) - 1 then row else imputeRow effect row)
         (enumerate 0 rs)"

text \<open>The data set \<^verbatim>\<open>{...userData, rows: ...}\<close> that is handed to \<^verbatim>\<open>setUserData\<close>.\<close>

definition imputedData :: "number \<Rightarrow> UserDataState \<Rightarrow> UserDataState" where
  "imputedData effect ud = ud\<lparr>rows := imputeRows effect (rows ud)\<rparr>"

definition applyTreatmentEffect :: "number \<Rightarrow> SimulationContext \<Rightarrow> error + SimulationContext" where
  "applyTreatmentEffect effect c =
     (if isSimulating c then Inr c
      else setUserData (imputedData effect (userData c)) c)"

subsection \<open>The placeholder row\<close>

text \<open>
  The effect that watches \<^verbatim>\<open>userData.rows\<close>: one run of its body. It calls
  \<^verbatim>\<open>addRow\<close> when no run is in progress and the list is empty or the last row has no
  cell equal to \<^verbatim>\<open>null\<close>.
\<close>

definition placeholderEffect :: "SimulationContext \<Rightarrow> error + SimulationContext" where
  "placeholderEffect c =
     (if \<not> isSimulating c \<and>
         (length (rows (userData c)) = 0 \<or>
          \<not> js_some (\<lambda>cell. cell = Null) (data (last (rows (userData c)))))
      then addRow c
      else Inr c)"

text \<open>A row is unactivated when \<^verbatim>\<open>row.data.every(cell => cell === null)\<close>.\<close>

definition allAbsent :: "DataRow \<Rightarrow> bool" where
  "allAbsent row = js_every (\<lambda>cell. cell = Null) (data row)"

subsection \<open>Import of a comma-separated file\<close>

text \<open>
  Strings are lists of characters, one character of the model for each code unit of the
  source string; the characters of the model are the code units below 256.
  \<^verbatim>\<open>s.split(sep)\<close> for a one-character separator always returns at least one piece.
\<close>

fun split_on :: "char \<Rightarrow> string \<Rightarrow> string list" where
  "split_on sep [] = [[]]"
| "split_on sep (x # xs) =
     (if x = sep then [] # split_on sep xs
      else (case split_on sep xs of
              [] \<Rightarrow> [[x]]
            | w # ws \<Rightarrow> (x # w) # ws))"

text \<open>
  The white space and line terminators that \<^verbatim>\<open>trim\<close> strips and \<^verbatim>\<open>parseInt\<close> skips:
  among the code units below 256 these are tab, line feed, vertical tab, form feed,
  carriage return, space and the no-break space U+00A0.
\<close>

definition is_space :: "char \<Rightarrow> bool" where
  "is_space ch =
     (ch \<in> set [CHR 0x09, CHR 0x0A, CHR 0x0B, CHR 0x0C, CHR 0x0D, CHR 0x20, CHR 0xA0])"

definition trim :: "string \<Rightarrow> string" where
  "trim s = rev (dropWhile is_space (rev (dropWhile is_space s)))"

definition is_digit :: "char \<Rightarrow> bool" where
  "is_digit ch = (48 \<le> (of_char ch :: nat) \<and> (of_char ch :: nat) \<le> 57)"

definition decimal :: "string \<Rightarrow> nat" where
  "decimal ds = foldl (\<lambda>n ch. 10 * n + ((of_char ch :: nat) - 48)) 0 ds"

text \<open>
  \<^verbatim>\<open>parseInt(s, 10)\<close>: leading white space, an optional sign, then the longest run of
  digits; whatever follows is ignored, and without a digit the result is \<^verbatim>\<open>NaN\<close>.
\<close>

definition parseInt :: "string \<Rightarrow> number" where
  "parseInt s =
     (let t = dropWhile is_space s;
          negative = (t \<noteq> [] \<and> hd t = CHR ''-'');
          u = (if t \<noteq> [] \<and> (hd t = CHR ''-'' \<or> hd t = CHR ''+'') then tl t else t);
          ds = takeWhile is_digit u
      in if ds = [] then NaN
         else Num (if negative then - real (decimal ds) else real (decimal ds)))"

text \<open>
  One line of the file. The conversion \<^verbatim>\<open>Number(value)\<close> of a non-empty field is a
  built-in of the language; the model takes it as the parameter \<open>Number\<close>.
\<close>

definition parseLine :: "(string \<Rightarrow> number) \<Rightarrow> string \<Rightarrow> DataRow" where
  "parseLine Number line =
     (let values = map trim (split_on CHR '','' line);
          popped = last values;
          values = butlast values
      in \<lparr>data = map (\<lambda>value. if value = [] then Null else Val (Number value)) values,
          assignment = parseInt (if popped = [] then ''0'' else popped)\<rparr>)"

definition parseRows :: "(string \<Rightarrow> number) \<Rightarrow> string \<Rightarrow> DataRow list" where
  "parseRows Number text =
     map (parseLine Number) (filter (\<lambda>line. trim line \<noteq> []) (split_on CHR 0x0A text))"

text \<open>
  The data set that \<^verbatim>\<open>reader.onload\<close> builds from the text of the file and the
  current column names, and hands to \<^verbatim>\<open>setUserData\<close>. Without a row,
  \<^verbatim>\<open>Math.max()\<close> is \<^verbatim>\<open>-Infinity\<close> and \<^verbatim>\<open>Array(-Infinity)\<close> throws a
  \<^verbatim>\<open>RangeError\<close>.
\<close>

definition importedData :: "(string \<Rightarrow> number) \<Rightarrow> string \<Rightarrow> string list \<Rightarrow> error + UserDataState" where
  "importedData Number text names =
     (let parsed = parseRows Number text
      in case map (\<lambda>row. length (data row)) parsed of
           [] \<Rightarrow> Inl RangeError
         | n # ns \<Rightarrow>
             Inr \<lparr>rows = parsed @ [\<lparr>data = replicate (fold max ns n) Null, assignment = Num 0\<rparr>],
                  controlColumnIndex = Num 0,
                  columnNames = names\<rparr>)"

text \<open>
  \<^verbatim>\<open>handleFileUpload\<close>, with the file already read (\<open>None\<close>: no file was chosen).
  Reading the file is taken to finish in the state in which the handler was called.
\<close>

definition handleFileUpload ::
  "(string \<Rightarrow> number) \<Rightarrow> string option \<Rightarrow> SimulationContext \<Rightarrow> error + SimulationContext" where
  "handleFileUpload Number file c =
     (if isSimulating c then Inr c
      else case file of
        None \<Rightarrow> Inr c
      | Some text \<Rightarrow>
          (case importedData Number text (columnNames (userData c)) of
             Inl e \<Rightarrow> Inl e
           | Inr newState \<Rightarrow> setUserData newState c))"

text \<open>
  \<^verbatim>\<open>Number\<close> on the empty string and on plain decimal literals (digits with an
  optional sign and an optional fraction), for the concrete files below. The other forms
  of literal (exponents, other radixes, \<^verbatim>\<open>Infinity\<close>) are not interpreted: this
  function answers \<^verbatim>\<open>NaN\<close> for them, and no statement below applies it to one.
\<close>

definition Number_decimal :: "string \<Rightarrow> number" where
  "Number_decimal s =
     (let negative = (s \<noteq> [] \<and> hd s = CHR ''-'');
          u = (if s \<noteq> [] \<and> (hd s = CHR ''-'' \<or> hd s = CHR ''+'') then tl s else s);
          ip = takeWhile is_digit u;
          rest = dropWhile is_digit u;
          fp = (if rest \<noteq> [] \<and> hd rest = CHR ''.'' then tl rest else []);
          r = real (decimal ip) + real (decimal fp) / 10 ^ length fp
      in if s = [] then Num 0
         else if (ip \<noteq> [] \<or> fp \<noteq> []) \<and> list_all is_digit fp \<and> (rest = [] \<or> hd rest = CHR ''.'')
         then Num (if negative then - r else r)
         else NaN)"

subsection \<open>Column names\<close>

text \<open>\<^verbatim>\<open>s.slice(start, end)\<close> for indices that are not negative.\<close>

definition slice :: "nat \<Rightarrow> nat \<Rightarrow> string \<Rightarrow> string" where
  "slice start stop s = take (stop - start) (drop start s)"

text \<open>
  \<^verbatim>\<open>handleColumnNameChange\<close>. The action \<^verbatim>\<open>renameColumn\<close> that the component gets from
  the context is the parameter \<open>rename\<close>, so that what the handler passes on can be
  stated for every such action.
\<close>

definition handleColumnNameChange ::
  "(nat \<Rightarrow> string \<Rightarrow> SimulationContext \<Rightarrow> error + SimulationContext) \<Rightarrow>
   nat \<Rightarrow> string \<Rightarrow> SimulationContext \<Rightarrow> error + SimulationContext" where
  "handleColumnNameChange rename index v c =
     (if isSimulating c then Inr c else rename index (slice 0 20 v) c)"

text \<open>
  An action for that parameter which stores the name exactly as it is handed over: with
  it, the name found in the data set is the name the handler passed on.
\<close>

definition storeColumnName :: "nat \<Rightarrow> string \<Rightarrow> SimulationContext \<Rightarrow> error + SimulationContext" where
  "storeColumnName index name c =
     (if length (columnNames (userData c)) \<le> index then Inl IndexError
      else Inr (record_mutation c
        ((userData c)\<lparr>columnNames := (columnNames (userData c))[index := name]\<rparr>)))"

subsection \<open>Column averages\<close>

text \<open>
  The accumulator of the \<^verbatim>\<open>reduce\<close> in \<^verbatim>\<open>calculateColumnAverages\<close> is a
  \<^verbatim>\<open>Record<number, number[]>\<close>: a map from column index to the values collected so far.
  \<^verbatim>\<open>forEach\<close> does not visit holes.
\<close>

type_synonym groups = "nat \<rightharpoonup> cell list"

text \<open>\<^verbatim>\<open>groups[index] || []\<close>: the group of a column, empty when none was started.\<close>

definition groupAt :: "groups \<Rightarrow> nat \<Rightarrow> cell list" where
  "groupAt acc index = (case acc index of None \<Rightarrow> [] | Some g \<Rightarrow> g)"

definition collectCell :: "number \<Rightarrow> nat \<times> cell \<Rightarrow> groups \<Rightarrow> groups" where
  "collectCell rowAssignment = (\<lambda>(colIndex, v) acc.
     if v \<noteq> Null \<and> rowAssignment = Num (real colIndex)
     then acc(colIndex \<mapsto> groupAt acc colIndex @ [v])
     else acc)"

definition collectRow :: "nat \<Rightarrow> nat \<times> DataRow \<Rightarrow> groups \<Rightarrow> groups" where
  "collectRow n = (\<lambda>(index, row) acc.
     if int index = int n - 1 \<and> js_every (\<lambda>cell. cell = Null) (data row) then acc
     else fold (collectCell (assignment row))
            (filter (\<lambda>(colIndex, v). v \<noteq> Hole) (enumerate 0 (data row))) acc)"

definition groupsOf :: "DataRow list \<Rightarrow> groups" where
  "groupsOf rs = fold (collectRow (length rs)) (enumerate 0 rs) Map.empty"

definition average :: "cell list \<Rightarrow> number option" where
  "average g =
     (if length g > 0
      then Some (num_div_length (foldl (\<lambda>sum v. num_add sum (to_number v)) (Num 0) g) (length g))
      else None)"

definition calculateColumnAverages :: "string list \<Rightarrow> DataRow list \<Rightarrow> number option list" where
  "calculateColumnAverages names rs =
     map (\<lambda>index. average (groupAt (groupsOf rs) index)) [0..<length names]"

text \<open>
  The values of the rows \<open>rs\<close> that count for column \<open>j\<close>, in the order of the rows,
  written without the loop: the cell in slot \<open>j\<close> of each row assigned to \<open>j\<close>, when
  that slot holds a value.
\<close>

definition contribution :: "nat \<Rightarrow> DataRow \<Rightarrow> cell list" where
  "contribution j row =
     (if assignment row = Num (real j) \<and> j < length (data row) \<and>
         data row ! j \<noteq> Null \<and> data row ! j \<noteq> Hole
      then [data row ! j] else [])"

definition contributions :: "DataRow list \<Rightarrow> nat \<Rightarrow> cell list" where
  "contributions rs j = concat (map (contribution j) rs)"

text \<open>
  What a statistic box or an average cell shows: a fixed text, or the digits of
  \<^verbatim>\<open>x.toFixed(d)\<close>.
\<close>

datatype display = Text string | ToFixed number nat

definition averageDisplay :: "number option \<Rightarrow> display" where
  "averageDisplay a = (case a of Some x \<Rightarrow> ToFixed x 2 | None \<Rightarrow> Text ''--'')"

section \<open>The plot display\<close>

definition isNaN :: "number \<Rightarrow> bool" where
  "isNaN n = (n = NaN)"

text \<open>The box \<^verbatim>\<open>P-value\<close> of \<^verbatim>\<open>PlotDisplay.tsx\<close>.\<close>

definition pValueDisplay :: "number option \<Rightarrow> display" where
  "pValueDisplay p =
     (case p of
        None \<Rightarrow> Text ''N/A''
      | Some x \<Rightarrow> if \<not> isNaN x then ToFixed x 4 else Text ''N/A'')"

text \<open>
  Modelled from the spec: the derived \<^verbatim>\<open>pValue\<close> of the run controller, which is part
  of \<^verbatim>\<open>SimulationContext\<close> as well. It is the fraction of the trials whose statistic is at least as
  extreme as the observed one (two-sided, ties included); a trial whose statistic is the
  sentinel \<^verbatim>\<open>NaN\<close> is never counted as extreme; with no trial it is undefined.
\<close>

definition extreme :: "number \<Rightarrow> number \<Rightarrow> bool" where
  "extreme observed t =
     (case (t, observed) of
        (Num a, Num b) \<Rightarrow> \<bar>b\<bar> \<le> \<bar>a\<bar>
      | _ \<Rightarrow> False)"

definition pValue :: "number list \<Rightarrow> number \<Rightarrow> number option" where
  "pValue trials observed =
     (if trials = [] then None
      else Some (Num (real (length (filter (extreme observed) trials)) / real (length trials))))"

section \<open>The test statistic\<close>

text \<open>
  Modelled from the spec: the eligible rows of the statistics and of the randomization
  engine, whose code is part of \<^verbatim>\<open>SimulationContext\<close>. A row is eligible when it is not
  the placeholder and has at least one populated value.
\<close>

definition eligibleRows :: "DataRow list \<Rightarrow> DataRow list" where
  "eligibleRows rs = filter (\<lambda>row. \<not> allAbsent row) rs"

text \<open>
  Modelled from the spec: the observations of group \<open>g\<close>, the measured value (the slot
  that the assignment names) of every eligible row assigned to \<open>g\<close>.
\<close>

definition groupValues :: "nat \<Rightarrow> DataRow list \<Rightarrow> number list" where
  "groupValues g rs =
     concat (map (\<lambda>row.
        if assignment row = Num (real g)
        then (case js_get (data row) (assignment row) of Val n \<Rightarrow> [n] | _ \<Rightarrow> [])
        else []) (eligibleRows rs))"

text \<open>
  Modelled from the spec: the mean of a group; a group with no observation gives the
  sentinel \<^verbatim>\<open>NaN\<close> instead of raising.
\<close>

definition groupMean :: "number list \<Rightarrow> number" where
  "groupMean vs =
     (if vs = [] then NaN else num_div_length (foldl num_add (Num 0) vs) (length vs))"

text \<open>
  Modelled from the spec: the statistic \<^emph>\<open>difference of group means\<close>, treatment minus
  control, for the two groups 0 and 1. The same function is applied to the rows of the
  data set and to the relabelled rows of every trial.
\<close>

definition differenceOfMeans :: "nat \<Rightarrow> DataRow list \<Rightarrow> number" where
  "differenceOfMeans control rs =
     num_sub (groupMean (groupValues (1 - control) rs)) (groupMean (groupValues control rs))"

text \<open>
  Modelled from the spec: \<^verbatim>\<open>observedStatistic\<close> of the run controller. Starting a run
  fails with \<^verbatim>\<open>EmptyDataError\<close> when there is no eligible row, and the observed
  statistic stays undefined; otherwise it is the statistic of the rows.
\<close>

definition observedStatistic :: "nat \<Rightarrow> DataRow list \<Rightarrow> number option" where
  "observedStatistic control rs =
     (if eligibleRows rs = [] then None else Some (differenceOfMeans control rs))"

text \<open>The box \<^verbatim>\<open>Observed Statistic\<close> of \<^verbatim>\<open>PlotDisplay.tsx\<close>.\<close>

definition observedStatisticDisplay :: "number option \<Rightarrow> display" where
  "observedStatisticDisplay s = (case s of Some x \<Rightarrow> ToFixed x 4 | None \<Rightarrow> Text ''N/A'')"

section \<open>Example data\<close>

text \<open>
  The two observations of the concrete scenario of the spec, followed by the placeholder
  row; a paired data set; and contexts holding them, idle and during a run.
\<close>

definition placeholderRow :: DataRow where
  "placeholderRow = \<lparr>data = [Null, Null], assignment = Num 0\<rparr>"

definition exampleData :: UserDataState where
  "exampleData =
     \<lparr>rows = [\<lparr>data = [Val (Num 5), Null], assignment = Num 0\<rparr>,
              \<lparr>data = [Null, Val (Num 8)], assignment = Num 1\<rparr>,
              placeholderRow],
      controlColumnIndex = Num 0,
      columnNames = [''Control'', ''Treatment'']\<rparr>"

definition pairedData :: UserDataState where
  "pairedData =
     \<lparr>rows = [\<lparr>data = [Val (Num 5), Val (Num 8)], assignment = Num 0\<rparr>, placeholderRow],
      controlColumnIndex = Num 0,
      columnNames = [''Control'', ''Treatment'']\<rparr>"

definition idleContext :: SimulationContext where
  "idleContext = \<lparr>userData = exampleData, isSimulating = False, past = [], future = []\<rparr>"

definition runningContext :: SimulationContext where
  "runningContext = \<lparr>userData = exampleData, isSimulating = True, past = [], future = []\<rparr>"

definition pairedContext :: SimulationContext where
  "pairedContext = \<lparr>userData = pairedData, isSimulating = False, past = [], future = []\<rparr>"

text \<open>The example data with the second column marked as the control group.\<close>

definition controlOneData :: UserDataState where
  "controlOneData = exampleData\<lparr>controlColumnIndex := Num 1\<rparr>"

definition controlOneContext :: SimulationContext where
  "controlOneContext =
     \<lparr>userData = controlOneData, isSimulating = False, past = [], future = []\<rparr>"

text \<open>The data set that the import of the one-line file \<^verbatim>\<open>,,0\<close> hands to \<^verbatim>\<open>setUserData\<close>.\<close>

definition blankImportData :: UserDataState where
  "blankImportData =
     \<lparr>rows = [placeholderRow, placeholderRow],
      controlColumnIndex = Num 0,
      columnNames = [''Control'', ''Treatment'']\<rparr>"

definition blankImportContext :: SimulationContext where
  "blankImportContext =
     \<lparr>userData = blankImportData, isSimulating = False, past = [], future = []\<rparr>"

text \<open>A file of two lines, \<^verbatim>\<open>5,,0\<close> and \<^verbatim>\<open>,8,1\<close>, and a file that holds a line break only.\<close>

definition exampleFile :: string where
  "exampleFile = ''5,,0'' @ [CHR 0x0A] @ '',8,1''"

definition blankFile :: string where
  "blankFile = [CHR 0x0A]"

text \<open>
  The data set that the import of the one-line file \<^verbatim>\<open>7\<close> hands over: its rows have
  no slot at all.
\<close>

definition zeroWidthData :: UserDataState where
  "zeroWidthData =
     \<lparr>rows = [\<lparr>data = [], assignment = Num 7\<rparr>, \<lparr>data = [], assignment = Num 0\<rparr>],
      controlColumnIndex = Num 0,
      columnNames = [''Control'', ''Treatment'']\<rparr>"

definition zeroWidthContext :: SimulationContext where
  "zeroWidthContext =
     \<lparr>userData = zeroWidthData, isSimulating = False, past = [], future = []\<rparr>"

text \<open>A file that holds a no-break space only.\<close>

definition noBreakSpaceFile :: string where
  "noBreakSpaceFile = [CHR 0xA0]"

text \<open>A data set whose only row holds one value.\<close>

definition openRowContext :: SimulationContext where
  "openRowContext =
     \<lparr>userData =
        \<lparr>rows = [\<lparr>data = [Val (Num 5), Null], assignment = Num 0\<rparr>],
         controlColumnIndex = Num 0,
         columnNames = [''Control'', ''Treatment'']\<rparr>,
      isSimulating = False, past = [], future = []\<rparr>"

text \<open>A data set whose only row holds both values.\<close>

definition fullRowContext :: SimulationContext where
  "fullRowContext =
     \<lparr>userData =
        \<lparr>rows = [\<lparr>data = [Val (Num 5), Val (Num 8)], assignment = Num 0\<rparr>],
         controlColumnIndex = Num 0,
         columnNames = [''Control'', ''Treatment'']\<rparr>,
      isSimulating = False, past = [], future = []\<rparr>"

section \<open>Undo and redo\<close>

lemma isSimulating_record_mutation: "isSimulating (record_mutation c d) = isSimulating c"
  by (simp add: record_mutation_def)

lemma isSimulating_mutations: "isSimulating (mutations c ds) = isSimulating c"
  unfolding mutations_def
  by (induction ds arbitrary: c) (simp_all add: isSimulating_record_mutation)

lemma mutations_snoc: "mutations c (ds @ [d]) = record_mutation (mutations c ds) d"
  by (simp add: mutations_def)

lemma undo_record_mutation:
  "\<not> isSimulating c \<Longrightarrow> undo (record_mutation c d) = c\<lparr>future := [d]\<rparr>"
  by (simp add: undo_def record_mutation_def)

lemma redo_undo_record_mutation:
  "\<not> isSimulating c \<Longrightarrow> redo (undo (record_mutation c d)) = record_mutation c d"
  by (simp add: undo_record_mutation) (simp add: redo_def record_mutation_def)

text \<open>
  Claim C1. After any sequence of mutations \<open>ds\<close> followed by a mutation to \<open>d\<close>,
  \<^verbatim>\<open>undo\<close> restores the data set (and the past stack) as they were before that
  mutation, \<^verbatim>\<open>redo\<close> after the undo restores the mutated state, and a new mutation
  after the undo leaves the future stack empty. The history manager is the one modelled
  from the spec; no run is in progress.
\<close>

theorem undo_redo_round_trip:
  assumes "\<not> isSimulating c"
  shows "userData (undo (mutations c (ds @ [d]))) = userData (mutations c ds) \<and>
         past (undo (mutations c (ds @ [d]))) = past (mutations c ds) \<and>
         redo (undo (mutations c (ds @ [d]))) = mutations c (ds @ [d]) \<and>
         userData (redo (undo (mutations c (ds @ [d])))) = d \<and>
         future (undo (mutations c (ds @ [d]))) = [d] \<and>
         future (mutations (undo (mutations c (ds @ [d]))) [d']) = []"
proof -
  let ?m = "mutations c ds"
  have idle: "\<not> isSimulating ?m"
    using assms by (simp add: isSimulating_mutations)
  have u: "undo (mutations c (ds @ [d])) = ?m\<lparr>future := [d]\<rparr>"
    by (simp add: mutations_snoc undo_record_mutation [OF idle])
  have r: "redo (undo (mutations c (ds @ [d]))) = mutations c (ds @ [d])"
    by (simp add: mutations_snoc redo_undo_record_mutation [OF idle])
  have d: "userData (mutations c (ds @ [d])) = d"
    by (simp add: mutations_snoc record_mutation_def)
  have f: "future (mutations (undo (mutations c (ds @ [d]))) [d']) = []"
    by (simp add: mutations_def record_mutation_def)
  show ?thesis
    using u r d f by simp
qed

text \<open>The round trip on the example data: two mutations, then undo, redo and a new mutation.\<close>

theorem undo_redo_round_trip_witness:
  "\<not> isSimulating idleContext \<and>
   userData (undo (mutations idleContext ([pairedData] @ [exampleData]))) = pairedData \<and>
   userData (redo (undo (mutations idleContext ([pairedData] @ [exampleData])))) = exampleData \<and>
   future (mutations (undo (mutations idleContext ([pairedData] @ [exampleData]))) [pairedData]) = []"
proof -
  have h: "\<not> isSimulating idleContext"
    by (simp add: idleContext_def)
  have m: "userData (mutations idleContext [pairedData]) = pairedData"
    by (simp add: mutations_def record_mutation_def)
  show ?thesis
    using h m undo_redo_round_trip [OF h, of "[pairedData]" exampleData pairedData]
    by metis
qed

section \<open>Treatment effect imputation\<close>

lemma array_index_0: "array_index (Num 0) = Some 0"
  by (simp add: array_index_def)

lemma array_index_1: "array_index (Num 1) = Some 1"
  by (simp add: array_index_def)

lemma spread_typed: "list_all typedCell a \<Longrightarrow> spread a = a"
  by (induction a) (auto simp: spread_def typedCell_def)

lemma imputeRow_0:
  assumes "typedCell x" "typedCell y"
  shows "imputeRow e \<lparr>data = [x, y], assignment = Num 0\<rparr> =
     \<lparr>data = (if x \<noteq> Null then [x, Val (num_add (to_number x) e)]
              else if y \<noteq> Null then [Val (num_add (to_number y) (num_neg e)), y]
              else [x, y]),
      assignment = Num 0\<rparr>"
  using assms
  by (simp add: imputeRow_def Let_def spread_typed js_get_def js_set_def array_index_0 array_index_1)

lemma imputeRow_1:
  assumes "typedCell x" "typedCell y"
  shows "imputeRow e \<lparr>data = [x, y], assignment = Num 1\<rparr> =
     \<lparr>data = (if y \<noteq> Null then [Val (num_add (to_number y) (num_neg e)), y]
              else if x \<noteq> Null then [x, Val (num_add (to_number x) e)]
              else [x, y]),
      assignment = Num 1\<rparr>"
  using assms
  by (simp add: imputeRow_def Let_def spread_typed js_get_def js_set_def array_index_0 array_index_1)

lemma imputeRows_nth:
  "i < length rs \<Longrightarrow>
   imputeRows e rs ! i = (if Suc i = length rs then rs ! i else imputeRow e (rs ! i))"
  by (auto simp: imputeRows_def nth_enumerate_eq)

lemma length_imputeRows: "length (imputeRows e rs) = length rs"
  by (simp add: imputeRows_def)

lemma applyTreatmentEffect_idle:
  "\<not> isSimulating c \<Longrightarrow>
   applyTreatmentEffect e c = setUserData (imputedData e (userData c)) c"
  by (simp add: applyTreatmentEffect_def)

lemma imputedData_example:
  "imputedData (Num 2) (exampleData\<lparr>controlColumnIndex := k\<rparr>) =
     exampleData
       \<lparr>rows := [\<lparr>data = [Val (Num 5), Val (Num 7)], assignment = Num 0\<rparr>,
                 \<lparr>data = [Val (Num 6), Val (Num 8)], assignment = Num 1\<rparr>,
                 placeholderRow],
        controlColumnIndex := k\<rparr>"
  by (simp add: imputedData_def exampleData_def imputeRows_def imputeRow_def Let_def spread_def
      js_get_def js_set_def array_index_def)

lemma imputedData_paired:
  "imputedData (Num 1) pairedData =
     pairedData\<lparr>rows := [\<lparr>data = [Val (Num 5), Val (Num 6)], assignment = Num 0\<rparr>, placeholderRow]\<rparr>"
  by (simp add: imputedData_def pairedData_def imputeRows_def imputeRow_def Let_def spread_def
      js_get_def js_set_def array_index_def)

lemma assignment_imputeRow: "assignment (imputeRow e row) = assignment row"
  by (simp add: imputeRow_def Let_def)

lemma last_imputeRows: "rs \<noteq> [] \<Longrightarrow> last (imputeRows e rs) = last rs"
proof -
  assume ne: "rs \<noteq> []"
  then have "length rs - 1 < length rs" "Suc (length rs - 1) = length rs"
    by simp_all
  then have "imputeRows e rs ! (length rs - 1) = rs ! (length rs - 1)"
    by (simp add: imputeRows_nth)
  moreover have "imputeRows e rs \<noteq> []"
    using ne length_imputeRows [of e rs] by auto
  ultimately show ?thesis
    using ne by (simp add: last_conv_nth length_imputeRows)
qed

lemma spread_no_hole: "Hole \<notin> set a \<Longrightarrow> spread a = a"
  by (induction a) (auto simp: spread_def)

lemma imputeRow_both_null:
  assumes "Hole \<notin> set (data row)"
    and "js_get (data row) (assignment row) = Null"
    and "js_get (data row) (num_sub (Num 1) (assignment row)) = Null"
  shows "imputeRow e row = row"
  using assms by (simp add: imputeRow_def Let_def spread_no_hole)

lemma imputeRow_outside:
  "imputeRow e \<lparr>data = [Null, Null], assignment = Num (- 1)\<rparr> =
     \<lparr>data = [Null, Null, Val NaN], assignment = Num (- 1)\<rparr>"
  by (simp add: imputeRow_def Let_def spread_def js_get_def js_set_def array_index_def)

text \<open>
  Claim C4, as amended. When no run is in progress \<^verbatim>\<open>applyTreatmentEffect\<close> hands to
  \<^verbatim>\<open>setUserData\<close> a data set with the same column names, control column and number of
  rows, in which every row keeps its assignment and the last row is as it was. A row
  without holes in which both the slot that the assignment names and the slot
  \<open>1 - assignment\<close> read as \<^verbatim>\<open>null\<close> is as it was; in a row with two slots and
  assignment 0 or 1 that is a row with neither slot populated. In a row with two slots
  that hold numbers or \<^verbatim>\<open>null\<close>, with assignment 0 or 1, that is not the last row and
  has a populated slot, one slot is kept and the other is written, so that both are
  populated afterwards; when both slots are populated the slot that the assignment names
  is kept and the other slot is overwritten with that value plus the effect (assignment
  0) or minus the effect (assignment 1). A slot outside the row reads as
  \<^verbatim>\<open>undefined\<close>, which counts as populated: the row of two absent slots with
  assignment -1 gets a third slot, \<^verbatim>\<open>NaN\<close>.
\<close>

theorem treatment_effect_rows:
  "(\<not> isSimulating c \<longrightarrow>
      applyTreatmentEffect e c = setUserData (imputedData e (userData c)) c) \<and>
   columnNames (imputedData e ud) = columnNames ud \<and>
   controlColumnIndex (imputedData e ud) = controlColumnIndex ud \<and>
   length (rows (imputedData e ud)) = length (rows ud) \<and>
   (j < length (rows ud) \<longrightarrow>
      assignment (rows (imputedData e ud) ! j) = assignment (rows ud ! j)) \<and>
   (rows ud \<noteq> [] \<longrightarrow> last (rows (imputedData e ud)) = last (rows ud)) \<and>
   (j < length (rows ud) \<and> Hole \<notin> set (data (rows ud ! j)) \<and>
    js_get (data (rows ud ! j)) (assignment (rows ud ! j)) = Null \<and>
    js_get (data (rows ud ! j)) (num_sub (Num 1) (assignment (rows ud ! j))) = Null \<longrightarrow>
      rows (imputedData e ud) ! j = rows ud ! j) \<and>
   (i < length (rows ud) \<and> rows ud ! i = \<lparr>data = [x, y], assignment = a\<rparr> \<and>
    typedCell x \<and> typedCell y \<and> (a = Num 0 \<or> a = Num 1) \<longrightarrow>
      (\<exists>x' y'. rows (imputedData e ud) ! i = \<lparr>data = [x', y'], assignment = a\<rparr> \<and>
         (Suc i = length (rows ud) \<longrightarrow> x' = x \<and> y' = y) \<and>
         (x = Null \<and> y = Null \<longrightarrow> x' = x \<and> y' = y) \<and>
         (Suc i \<noteq> length (rows ud) \<and> (x \<noteq> Null \<or> y \<noteq> Null) \<longrightarrow>
            (x' = x \<or> y' = y) \<and> x' \<noteq> Null \<and> y' \<noteq> Null) \<and>
         (Suc i \<noteq> length (rows ud) \<and> x \<noteq> Null \<and> y \<noteq> Null \<longrightarrow>
            (if a = Num 0 then x' = x \<and> y' = Val (num_add (to_number x) e)
             else x' = Val (num_add (to_number y) (num_neg e)) \<and> y' = y)))) \<and>
   imputeRow e \<lparr>data = [Null, Null], assignment = Num (- 1)\<rparr> =
     \<lparr>data = [Null, Null, Val NaN], assignment = Num (- 1)\<rparr>"
proof -
  have handler: "\<not> isSimulating c \<longrightarrow>
      applyTreatmentEffect e c = setUserData (imputedData e (userData c)) c"
    by (simp add: applyTreatmentEffect_idle)
  have fields: "columnNames (imputedData e ud) = columnNames ud"
    "controlColumnIndex (imputedData e ud) = controlColumnIndex ud"
    "length (rows (imputedData e ud)) = length (rows ud)"
    by (simp_all add: imputedData_def length_imputeRows)
  have assigned: "j < length (rows ud) \<longrightarrow>
      assignment (rows (imputedData e ud) ! j) = assignment (rows ud ! j)"
    by (simp add: imputedData_def imputeRows_nth assignment_imputeRow)
  have final: "rows ud \<noteq> [] \<longrightarrow> last (rows (imputedData e ud)) = last (rows ud)"
    by (simp add: imputedData_def last_imputeRows)
  have absent: "j < length (rows ud) \<and> Hole \<notin> set (data (rows ud ! j)) \<and>
    js_get (data (rows ud ! j)) (assignment (rows ud ! j)) = Null \<and>
    js_get (data (rows ud ! j)) (num_sub (Num 1) (assignment (rows ud ! j))) = Null \<longrightarrow>
      rows (imputedData e ud) ! j = rows ud ! j"
    by (simp add: imputedData_def imputeRows_nth imputeRow_both_null)
  have shaped: "\<exists>x' y'. rows (imputedData e ud) ! i = \<lparr>data = [x', y'], assignment = a\<rparr> \<and>
         (Suc i = length (rows ud) \<longrightarrow> x' = x \<and> y' = y) \<and>
         (x = Null \<and> y = Null \<longrightarrow> x' = x \<and> y' = y) \<and>
         (Suc i \<noteq> length (rows ud) \<and> (x \<noteq> Null \<or> y \<noteq> Null) \<longrightarrow>
            (x' = x \<or> y' = y) \<and> x' \<noteq> Null \<and> y' \<noteq> Null) \<and>
         (Suc i \<noteq> length (rows ud) \<and> x \<noteq> Null \<and> y \<noteq> Null \<longrightarrow>
            (if a = Num 0 then x' = x \<and> y' = Val (num_add (to_number x) e)
             else x' = Val (num_add (to_number y) (num_neg e)) \<and> y' = y))"
    if h: "i < length (rows ud) \<and> rows ud ! i = \<lparr>data = [x, y], assignment = a\<rparr> \<and>
      typedCell x \<and> typedCell y \<and> (a = Num 0 \<or> a = Num 1)"
  proof -
    have nth: "rows (imputedData e ud) ! i =
        (if Suc i = length (rows ud) then \<lparr>data = [x, y], assignment = a\<rparr>
         else imputeRow e \<lparr>data = [x, y], assignment = a\<rparr>)"
      using h by (simp add: imputedData_def imputeRows_nth)
    have typed: "typedCell x" "typedCell y"
      using h by simp_all
    from h have "a = Num 0 \<or> a = Num 1"
      by simp
    then show ?thesis
    proof
      assume "a = Num 0"
      then show ?thesis
        using nth typed by (auto simp: imputeRow_0)
    next
      assume "a = Num 1"
      then show ?thesis
        using nth typed by (auto simp: imputeRow_1)
    qed
  qed
  show ?thesis
    using handler fields assigned final absent shaped imputeRow_outside
    by (intro conjI impI) blast+
qed

text \<open>
  The paired row of the example, whose second slot, 8, becomes 5 + 1; its last row; and
  the first of two rows without a value.
\<close>

theorem treatment_effect_rows_witness:
  "(0::nat) < length (rows pairedData) \<and>
   rows pairedData ! 0 = \<lparr>data = [Val (Num 5), Val (Num 8)], assignment = Num 0\<rparr> \<and>
   typedCell (Val (Num 5)) \<and> typedCell (Val (Num 8)) \<and>
   \<not> isSimulating pairedContext \<and>
   applyTreatmentEffect (Num 1) pairedContext =
     setUserData (imputedData (Num 1) (userData pairedContext)) pairedContext \<and>
   length (rows (imputedData (Num 1) pairedData)) = 2 \<and>
   rows (imputedData (Num 1) pairedData) ! 0 =
     \<lparr>data = [Val (Num 5), Val (Num 6)], assignment = Num 0\<rparr> \<and>
   rows pairedData \<noteq> [] \<and>
   last (rows (imputedData (Num 1) pairedData)) = placeholderRow \<and>
   (0::nat) < length (rows blankImportData) \<and>
   Hole \<notin> set (data (rows blankImportData ! 0)) \<and>
   js_get (data (rows blankImportData ! 0)) (assignment (rows blankImportData ! 0)) = Null \<and>
   js_get (data (rows blankImportData ! 0))
     (num_sub (Num 1) (assignment (rows blankImportData ! 0))) = Null \<and>
   rows (imputedData (Num 1) blankImportData) ! 0 = placeholderRow"
proof -
  have h1: "(0::nat) < length (rows pairedData)"
    "rows pairedData ! 0 = \<lparr>data = [Val (Num 5), Val (Num 8)], assignment = Num 0\<rparr>"
    "typedCell (Val (Num 5))" "typedCell (Val (Num 8))"
    "rows pairedData \<noteq> []" "last (rows pairedData) = placeholderRow"
    "length (rows pairedData) = 2"
    by (simp_all add: pairedData_def typedCell_def)
  have h2: "\<not> isSimulating pairedContext"
    by (simp add: pairedContext_def)
  have h3: "(0::nat) < length (rows blankImportData)"
    "Hole \<notin> set (data (rows blankImportData ! 0))"
    "js_get (data (rows blankImportData ! 0)) (assignment (rows blankImportData ! 0)) = Null"
    "js_get (data (rows blankImportData ! 0))
       (num_sub (Num 1) (assignment (rows blankImportData ! 0))) = Null"
    "rows blankImportData ! 0 = placeholderRow"
    by (simp_all add: blankImportData_def placeholderRow_def js_get_def array_index_def)
  note paired = treatment_effect_rows
    [of pairedContext "Num 1" pairedData 0 0 "Val (Num 5)" "Val (Num 8)" "Num 0"]
  note blank = treatment_effect_rows [of pairedContext "Num 1" blankImportData 0]
  have p1: "applyTreatmentEffect (Num 1) pairedContext =
      setUserData (imputedData (Num 1) (userData pairedContext)) pairedContext"
    "length (rows (imputedData (Num 1) pairedData)) = 2"
    "last (rows (imputedData (Num 1) pairedData)) = placeholderRow"
    using paired h1 h2 by simp_all
  have p2: "rows (imputedData (Num 1) pairedData) ! 0 =
      \<lparr>data = [Val (Num 5), Val (Num 6)], assignment = Num 0\<rparr>"
    using paired h1 by auto
  have b: "rows (imputedData (Num 1) blankImportData) ! 0 = placeholderRow"
    using blank h3 by simp
  show ?thesis
    using h1 h2 h3 p1 p2 b by blast
qed

text \<open>
  Claim C4 as stated fails: a row with both slots populated is not left unchanged. With
  effect 1 the row (5, 8) assigned to slot 0 becomes (5, 6) in the data set handed to
  \<^verbatim>\<open>setUserData\<close>.
\<close>

theorem treatment_effect_paired_row_counterexample:
  "rows pairedData =
     [\<lparr>data = [Val (Num 5), Val (Num 8)], assignment = Num 0\<rparr>, placeholderRow] \<and>
   rows (imputedData (Num 1) pairedData) =
     [\<lparr>data = [Val (Num 5), Val (Num 6)], assignment = Num 0\<rparr>, placeholderRow] \<and>
   applyTreatmentEffect (Num 1) pairedContext =
     setUserData
       (pairedData\<lparr>rows := [\<lparr>data = [Val (Num 5), Val (Num 6)], assignment = Num 0\<rparr>,
                            placeholderRow]\<rparr>)
       pairedContext"
proof -
  have "applyTreatmentEffect (Num 1) pairedContext =
      setUserData (imputedData (Num 1) pairedData) pairedContext"
    by (simp add: applyTreatmentEffect_def pairedContext_def)
  then show ?thesis
    by (simp add: imputedData_paired) (simp add: pairedData_def)
qed

text \<open>
  Claim C5, as amended. In a row that is not the last and has exactly one slot populated,
  with value \<open>v\<close>, the missing slot is filled with \<open>v + effect\<close> when it is slot 1 and
  with \<open>v - effect\<close> when it is slot 0. Slot 0 stands for the control group in this
  computation: the rows produced are the same for every value of
  \<^verbatim>\<open>controlColumnIndex\<close>.
\<close>

theorem imputed_value:
  assumes i: "Suc i < length (rows ud)"
    and row: "rows ud ! i = \<lparr>data = [x, y], assignment = a\<rparr>"
    and a: "a = Num 0 \<or> a = Num 1"
    and one: "(x = Val v \<and> y = Null) \<or> (x = Null \<and> y = Val v)"
  shows "rows (imputedData e ud) ! i =
       \<lparr>data = (if y = Null then [x, Val (num_add v e)] else [Val (num_add v (num_neg e)), y]),
        assignment = a\<rparr> \<and>
     rows (imputedData e (ud\<lparr>controlColumnIndex := k\<rparr>)) = rows (imputedData e ud) \<and>
     (\<not> isSimulating c \<longrightarrow>
        applyTreatmentEffect e c = setUserData (imputedData e (userData c)) c)"
proof -
  have typed: "typedCell x" "typedCell y"
    using one by (auto simp: typedCell_def)
  have i': "i < length (rows ud)" "Suc i \<noteq> length (rows ud)"
    using i by simp_all
  have nth: "rows (imputedData e ud) ! i = imputeRow e \<lparr>data = [x, y], assignment = a\<rparr>"
    using i' row by (simp add: imputedData_def imputeRows_nth)
  have val: "imputeRow e \<lparr>data = [x, y], assignment = a\<rparr> =
      \<lparr>data = (if y = Null then [x, Val (num_add v e)] else [Val (num_add v (num_neg e)), y]),
       assignment = a\<rparr>"
    using a one typed by (auto simp: imputeRow_0 imputeRow_1)
  have same: "rows (imputedData e (ud\<lparr>controlColumnIndex := k\<rparr>)) = rows (imputedData e ud)"
    by (simp add: imputedData_def)
  show ?thesis
    using nth val same by (simp add: applyTreatmentEffect_idle)
qed

text \<open>The first row of the example, (5, absent) with effect 2, becomes (5, 7).\<close>

theorem imputed_value_witness:
  "Suc 0 < length (rows exampleData) \<and>
   rows exampleData ! 0 = \<lparr>data = [Val (Num 5), Null], assignment = Num 0\<rparr> \<and>
   rows (imputedData (Num 2) exampleData) ! 0 =
     \<lparr>data = [Val (Num 5), Val (Num 7)], assignment = Num 0\<rparr> \<and>
   \<not> isSimulating idleContext \<and>
   applyTreatmentEffect (Num 2) idleContext =
     setUserData (imputedData (Num 2) (userData idleContext)) idleContext"
proof -
  have h1: "Suc 0 < length (rows exampleData)"
    by (simp add: exampleData_def)
  have h2: "rows exampleData ! 0 = \<lparr>data = [Val (Num 5), Null], assignment = Num 0\<rparr>"
    by (simp add: exampleData_def)
  have h3: "Num 0 = Num 0 \<or> Num 0 = Num 1"
    by simp
  have h4: "(Val (Num 5) = Val (Num 5) \<and> Null = Null) \<or> (Val (Num 5) = Null \<and> Null = Val (Num 5))"
    by simp
  have h5: "\<not> isSimulating idleContext"
    by (simp add: idleContext_def)
  show ?thesis
    using h1 h2 h5 imputed_value [OF h1 h2 h3 h4, of "Num 2" "Num 0" idleContext]
    by auto
qed

text \<open>
  Claim C5 as stated fails: the sign does not follow the control group of the data set.
  With control column 0, the first row has its populated reference slot in the control
  column and the other slot is filled with 5 + 2. With control column 1, the second row
  has its populated reference slot in the control column and the other slot is filled
  with 8 - 2. Both data sets get the same rows.
\<close>

theorem imputed_sign_counterexample:
  "controlColumnIndex exampleData = Num 0 \<and>
   rows (imputedData (Num 2) exampleData) =
     [\<lparr>data = [Val (Num 5), Val (Num 7)], assignment = Num 0\<rparr>,
      \<lparr>data = [Val (Num 6), Val (Num 8)], assignment = Num 1\<rparr>,
      placeholderRow] \<and>
   controlColumnIndex controlOneData = Num 1 \<and>
   rows (imputedData (Num 2) controlOneData) =
     [\<lparr>data = [Val (Num 5), Val (Num 7)], assignment = Num 0\<rparr>,
      \<lparr>data = [Val (Num 6), Val (Num 8)], assignment = Num 1\<rparr>,
      placeholderRow] \<and>
   applyTreatmentEffect (Num 2) controlOneContext =
     setUserData (imputedData (Num 2) controlOneData) controlOneContext"
proof -
  have "imputedData (Num 2) exampleData = imputedData (Num 2) (exampleData\<lparr>controlColumnIndex := Num 0\<rparr>)"
    by (simp add: exampleData_def)
  then have "rows (imputedData (Num 2) exampleData) =
     [\<lparr>data = [Val (Num 5), Val (Num 7)], assignment = Num 0\<rparr>,
      \<lparr>data = [Val (Num 6), Val (Num 8)], assignment = Num 1\<rparr>,
      placeholderRow]"
    by (simp add: imputedData_example)
  moreover have "rows (imputedData (Num 2) controlOneData) =
     [\<lparr>data = [Val (Num 5), Val (Num 7)], assignment = Num 0\<rparr>,
      \<lparr>data = [Val (Num 6), Val (Num 8)], assignment = Num 1\<rparr>,
      placeholderRow]"
    by (simp add: controlOneData_def imputedData_example)
  moreover have "controlColumnIndex exampleData = Num 0" "controlColumnIndex controlOneData = Num 1"
    by (simp_all add: exampleData_def controlOneData_def)
  moreover have "applyTreatmentEffect (Num 2) controlOneContext =
     setUserData (imputedData (Num 2) controlOneData) controlOneContext"
    by (simp add: applyTreatmentEffect_def controlOneContext_def)
  ultimately show ?thesis
    by blast
qed

section \<open>Operations during a run\<close>

lemma slice_0_20: "slice 0 20 v = take 20 v"
  by (simp add: slice_def)

lemma handleFileUpload_idle:
  "\<not> isSimulating c \<Longrightarrow>
   handleFileUpload N (Some text) c =
     (case importedData N text (columnNames (userData c)) of
        Inl e \<Rightarrow> Inl e
      | Inr newState \<Rightarrow> setUserData newState c)"
  by (simp add: handleFileUpload_def)

text \<open>
  Claim C2, as amended. During a run the operations the component issues (treatment
  effect imputation, the import that ends in \<^verbatim>\<open>setUserData\<close>, the renaming of a column
  and the effect that appends the placeholder row) return without an error and leave the
  context, with its data set and both history stacks, as it is. When no run is in
  progress the same operations are handed on: the imputed data set and the imported data
  set to \<^verbatim>\<open>setUserData\<close>, the name cut to 20 characters to \<^verbatim>\<open>renameColumn\<close>, whatever
  that action is; with \<^verbatim>\<open>setUserData\<close> as the spec describes it, the imputation then
  succeeds.
\<close>

theorem locked_operations_return_silently:
  "(isSimulating c \<longrightarrow>
      applyTreatmentEffect e c = Inr c \<and> handleFileUpload N file c = Inr c \<and>
      handleColumnNameChange rename index v c = Inr c \<and> placeholderEffect c = Inr c) \<and>
   (\<not> isSimulating c \<longrightarrow>
      applyTreatmentEffect e c = setUserData (imputedData e (userData c)) c \<and>
      handleFileUpload N (Some text) c =
        (case importedData N text (columnNames (userData c)) of
           Inl err \<Rightarrow> Inl err
         | Inr newState \<Rightarrow> setUserData newState c) \<and>
      handleColumnNameChange rename index v c = rename index (slice 0 20 v) c \<and>
      (\<exists>c'. applyTreatmentEffect e c = Inr c' \<and> userData c' = imputedData e (userData c)))"
proof (intro conjI impI)
  assume "isSimulating c"
  then show "applyTreatmentEffect e c = Inr c" "handleFileUpload N file c = Inr c"
    "handleColumnNameChange rename index v c = Inr c" "placeholderEffect c = Inr c"
    by (simp_all add: applyTreatmentEffect_def handleFileUpload_def handleColumnNameChange_def
        placeholderEffect_def)
next
  assume idle: "\<not> isSimulating c"
  then show "applyTreatmentEffect e c = setUserData (imputedData e (userData c)) c"
    by (rule applyTreatmentEffect_idle)
  from idle show "handleFileUpload N (Some text) c =
      (case importedData N text (columnNames (userData c)) of
         Inl err \<Rightarrow> Inl err
       | Inr newState \<Rightarrow> setUserData newState c)"
    by (rule handleFileUpload_idle)
  from idle show "handleColumnNameChange rename index v c = rename index (slice 0 20 v) c"
    by (simp add: handleColumnNameChange_def)
  from idle show "\<exists>c'. applyTreatmentEffect e c = Inr c' \<and> userData c' = imputedData e (userData c)"
    by (simp add: applyTreatmentEffect_idle setUserData_def record_mutation_def)
qed

text \<open>
  Claim C2 as stated fails: during a run \<^verbatim>\<open>applyTreatmentEffect\<close> returns normally, with
  the context unchanged; it is not rejected with \<^verbatim>\<open>LockedError\<close>.
\<close>

theorem locked_operation_counterexample:
  "isSimulating runningContext \<and>
   applyTreatmentEffect (Num 1) runningContext = Inr runningContext \<and>
   applyTreatmentEffect (Num 1) runningContext \<noteq> Inl LockedError"
  by (simp add: applyTreatmentEffect_def runningContext_def)

text \<open>The operations on the example data, during a run and without one.\<close>

theorem locked_operations_return_silently_witness:
  "isSimulating runningContext \<and>
   applyTreatmentEffect (Num 1) runningContext = Inr runningContext \<and>
   handleFileUpload Number_decimal (Some exampleFile) runningContext = Inr runningContext \<and>
   handleColumnNameChange renameColumn 0 ''Placebo'' runningContext = Inr runningContext \<and>
   placeholderEffect runningContext = Inr runningContext \<and>
   \<not> isSimulating idleContext \<and>
   applyTreatmentEffect (Num 1) idleContext =
     setUserData (imputedData (Num 1) (userData idleContext)) idleContext \<and>
   handleColumnNameChange renameColumn 0 ''Placebo'' idleContext =
     renameColumn 0 (slice 0 20 ''Placebo'') idleContext \<and>
   (\<exists>c'. applyTreatmentEffect (Num 1) idleContext = Inr c' \<and>
      userData c' = imputedData (Num 1) (userData idleContext))"
proof -
  have r: "isSimulating runningContext"
    by (simp add: runningContext_def)
  have i: "\<not> isSimulating idleContext"
    by (simp add: idleContext_def)
  show ?thesis
    using r i
      locked_operations_return_silently
        [of runningContext "Num 1" Number_decimal "Some exampleFile" renameColumn 0 "''Placebo''"
          exampleFile]
      locked_operations_return_silently
        [of idleContext "Num 1" Number_decimal "Some exampleFile" renameColumn 0 "''Placebo''"
          exampleFile]
    by blast
qed

section \<open>Import of a file\<close>

lemma allAbsent_replicate_Null: "allAbsent \<lparr>data = replicate n Null, assignment = a\<rparr>"
  by (simp add: allAbsent_def js_every_def list_all_iff)

lemma js_some_Null_replicate: "0 < n \<Longrightarrow> js_some (\<lambda>cell. cell = Null) (replicate n Null)"
  by (cases n) (simp_all add: js_some_def)

lemma importedData_rows:
  assumes "parseRows N text \<noteq> []"
  shows "importedData N text names =
     Inr \<lparr>rows = parseRows N text @
            [\<lparr>data = replicate (Max (set (map (\<lambda>row. length (data row)) (parseRows N text)))) Null,
              assignment = Num 0\<rparr>],
          controlColumnIndex = Num 0,
          columnNames = names\<rparr>"
proof -
  obtain r rs where p: "parseRows N text = r # rs"
    using assms by (cases "parseRows N text") auto
  have "fold max (map (\<lambda>row. length (data row)) rs) (length (data r)) =
      Max (set (map (\<lambda>row. length (data row)) (r # rs)))"
    using Max.set_eq_fold [of "length (data r)" "map (\<lambda>row. length (data row)) rs"] by simp
  then show ?thesis
    by (simp add: importedData_def p Let_def)
qed

lemma parse_example:
  "parseRows Number_decimal exampleFile =
     [\<lparr>data = [Val (Num 5), Null], assignment = Num 0\<rparr>,
      \<lparr>data = [Null, Val (Num 8)], assignment = Num 1\<rparr>]"
  by (simp add: exampleFile_def parseRows_def parseLine_def trim_def is_space_def Let_def
      parseInt_def Number_decimal_def is_digit_def decimal_def)

lemma parse_blank_fields:
  "parseRows Number_decimal '',,0'' = [\<lparr>data = [Null, Null], assignment = Num 0\<rparr>]"
  by (simp add: parseRows_def parseLine_def trim_def is_space_def Let_def parseInt_def
      is_digit_def decimal_def)

lemma parse_empty: "parseRows Number_decimal blankFile = []"
  by (simp add: blankFile_def parseRows_def trim_def is_space_def)

lemma parse_no_break_space: "parseRows N noBreakSpaceFile = []"
  by (simp add: noBreakSpaceFile_def parseRows_def trim_def is_space_def)

lemma import_single_field:
  "importedData Number_decimal ''7'' [''Control'', ''Treatment''] = Inr zeroWidthData"
  by (simp add: importedData_def parseRows_def parseLine_def trim_def is_space_def Let_def
      parseInt_def is_digit_def decimal_def zeroWidthData_def)

lemma import_blank_fields:
  "importedData Number_decimal '',,0'' [''Control'', ''Treatment''] = Inr blankImportData"
  by (simp add: importedData_def parse_blank_fields blankImportData_def placeholderRow_def
      numeral_2_eq_2 Let_def)

lemma upload_blank_fields:
  "handleFileUpload Number_decimal (Some '',,0'') idleContext =
     setUserData blankImportData idleContext"
proof -
  have "columnNames (userData idleContext) = [''Control'', ''Treatment'']"
    "\<not> isSimulating idleContext"
    by (simp_all add: idleContext_def exampleData_def)
  then show ?thesis
    by (simp add: handleFileUpload_idle import_blank_fields)
qed

text \<open>
  Claim C8, as amended. For a file with at least one non-blank line, the data set that
  the import hands to \<^verbatim>\<open>setUserData\<close> holds the parsed rows, in order, followed by one
  appended fully absent row whose length is the largest number of data columns among the
  parsed rows; its control column index is 0 and its column names are the current ones.
  Parsed rows that are themselves fully absent are kept. A file without a non-blank line
  is not accepted: the handler throws a \<^verbatim>\<open>RangeError\<close>.
\<close>

theorem import_appends_placeholder:
  "(parseRows N text \<noteq> [] \<longrightarrow>
      (\<exists>newState. importedData N text names = Inr newState \<and>
         rows newState = parseRows N text @
           [\<lparr>data = replicate (Max (set (map (\<lambda>row. length (data row)) (parseRows N text)))) Null,
             assignment = Num 0\<rparr>] \<and>
         allAbsent (last (rows newState)) \<and>
         controlColumnIndex newState = Num 0 \<and>
         columnNames newState = names \<and>
         (\<not> isSimulating c \<and> names = columnNames (userData c) \<longrightarrow>
            handleFileUpload N (Some text) c = setUserData newState c))) \<and>
   (parseRows N text = [] \<longrightarrow>
      importedData N text names = Inl RangeError \<and>
      (\<not> isSimulating c \<and> names = columnNames (userData c) \<longrightarrow>
         handleFileUpload N (Some text) c = Inl RangeError))"
proof (intro conjI impI)
  assume h: "parseRows N text \<noteq> []"
  let ?p = "\<lparr>data = replicate (Max (set (map (\<lambda>row. length (data row)) (parseRows N text)))) Null,
             assignment = Num 0\<rparr>"
  let ?d = "\<lparr>rows = parseRows N text @ [?p], controlColumnIndex = Num 0, columnNames = names\<rparr>"
  have d: "importedData N text names = Inr ?d"
    using h by (rule importedData_rows)
  have absent: "allAbsent (last (rows ?d))"
    by (simp add: allAbsent_replicate_Null)
  have handler: "\<not> isSimulating c \<and> names = columnNames (userData c) \<longrightarrow>
      handleFileUpload N (Some text) c = setUserData ?d c"
    using d by (auto simp: handleFileUpload_idle)
  show "\<exists>newState. importedData N text names = Inr newState \<and>
         rows newState = parseRows N text @ [?p] \<and>
         allAbsent (last (rows newState)) \<and>
         controlColumnIndex newState = Num 0 \<and>
         columnNames newState = names \<and>
         (\<not> isSimulating c \<and> names = columnNames (userData c) \<longrightarrow>
            handleFileUpload N (Some text) c = setUserData newState c)"
    using d absent handler by (intro exI [of _ ?d]) simp
next
  assume h: "parseRows N text = []"
  then show e: "importedData N text names = Inl RangeError"
    by (simp add: importedData_def)
  assume "\<not> isSimulating c \<and> names = columnNames (userData c)"
  with e show "handleFileUpload N (Some text) c = Inl RangeError"
    by (simp add: handleFileUpload_idle)
qed

text \<open>
  The two-line file gives the rows of the example data; the file that holds a line break
  only and the file that holds a no-break space only are refused.
\<close>

theorem import_appends_placeholder_witness:
  "parseRows Number_decimal exampleFile \<noteq> [] \<and>
   \<not> isSimulating idleContext \<and>
   (\<exists>newState. importedData Number_decimal exampleFile (columnNames (userData idleContext)) =
        Inr newState \<and>
      rows newState =
        [\<lparr>data = [Val (Num 5), Null], assignment = Num 0\<rparr>,
         \<lparr>data = [Null, Val (Num 8)], assignment = Num 1\<rparr>,
         \<lparr>data = [Null, Null], assignment = Num 0\<rparr>] \<and>
      controlColumnIndex newState = Num 0 \<and>
      handleFileUpload Number_decimal (Some exampleFile) idleContext =
        setUserData newState idleContext) \<and>
   parseRows Number_decimal blankFile = [] \<and>
   handleFileUpload Number_decimal (Some blankFile) idleContext = Inl RangeError \<and>
   parseRows Number_decimal noBreakSpaceFile = [] \<and>
   handleFileUpload Number_decimal (Some noBreakSpaceFile) idleContext = Inl RangeError"
proof -
  have i: "\<not> isSimulating idleContext"
    by (simp add: idleContext_def)
  have two: "replicate 2 Null = [Null, Null :: cell]"
    by (simp add: numeral_2_eq_2)
  show ?thesis
    using i import_appends_placeholder
        [of Number_decimal exampleFile "columnNames (userData idleContext)" idleContext]
      import_appends_placeholder
        [of Number_decimal blankFile "columnNames (userData idleContext)" idleContext]
      import_appends_placeholder
        [of Number_decimal noBreakSpaceFile "columnNames (userData idleContext)" idleContext]
    by (auto simp: parse_example parse_empty parse_no_break_space two)
qed

text \<open>
  Claim C8 as stated fails: the one-line file \<^verbatim>\<open>,,0\<close> is accepted, and the data set
  handed to \<^verbatim>\<open>setUserData\<close> ends with two fully absent rows, the parsed one and the
  appended one.
\<close>

theorem import_blank_row_counterexample:
  "handleFileUpload Number_decimal (Some '',,0'') idleContext =
     setUserData blankImportData idleContext \<and>
   rows blankImportData = [placeholderRow, placeholderRow] \<and>
   allAbsent placeholderRow"
  using upload_blank_fields
  by (simp add: blankImportData_def allAbsent_def js_every_def placeholderRow_def)

section \<open>The placeholder row\<close>

text \<open>
  Claim C3, as amended. When no run is in progress and the row list is empty or the last
  row has no slot that holds \<^verbatim>\<open>null\<close>, one run of the watching effect calls
  \<^verbatim>\<open>addRow\<close>; with \<^verbatim>\<open>addRow\<close> as the spec describes it, a fully absent row is
  appended and is then the last row, and, with at least one column, running the effect
  again appends nothing. A last row with no slot at all is such a row, although it is
  fully absent: the effect calls \<^verbatim>\<open>addRow\<close> after it. When the last row is fully absent
  and has at least one slot that holds \<^verbatim>\<open>null\<close>, and during a run, the effect appends
  nothing. Nothing keeps the rows before the last from being fully absent.
\<close>

theorem placeholder_effect:
  "(\<not> isSimulating c \<and>
    (rows (userData c) = [] \<or> \<not> js_some (\<lambda>cell. cell = Null) (data (last (rows (userData c))))) \<longrightarrow>
      placeholderEffect c = addRow c \<and>
      (\<exists>c'. placeholderEffect c = Inr c' \<and>
         rows (userData c') = rows (userData c) @
           [\<lparr>data = replicate (length (columnNames (userData c))) Null, assignment = Num 0\<rparr>] \<and>
         allAbsent (last (rows (userData c'))) \<and>
         (columnNames (userData c) \<noteq> [] \<longrightarrow> placeholderEffect c' = Inr c'))) \<and>
   (\<not> isSimulating c \<and> rows (userData c) \<noteq> [] \<and> data (last (rows (userData c))) = [] \<longrightarrow>
      allAbsent (last (rows (userData c))) \<and> placeholderEffect c = addRow c) \<and>
   (rows (userData c) \<noteq> [] \<and> allAbsent (last (rows (userData c))) \<and>
    Null \<in> set (data (last (rows (userData c)))) \<longrightarrow> placeholderEffect c = Inr c) \<and>
   (isSimulating c \<longrightarrow> placeholderEffect c = Inr c)"
proof (intro conjI impI)
  assume h: "\<not> isSimulating c \<and>
    (rows (userData c) = [] \<or> \<not> js_some (\<lambda>cell. cell = Null) (data (last (rows (userData c)))))"
  let ?p = "\<lparr>data = replicate (length (columnNames (userData c))) Null, assignment = Num 0\<rparr>"
  let ?c' = "record_mutation c ((userData c)\<lparr>rows := rows (userData c) @ [?p]\<rparr>)"
  show call: "placeholderEffect c = addRow c"
    using h by (auto simp: placeholderEffect_def)
  have eff: "placeholderEffect c = Inr ?c'"
    using h by (simp add: call addRow_def)
  have rows': "rows (userData ?c') = rows (userData c) @ [?p]"
    by (simp add: record_mutation_def)
  have absent: "allAbsent (last (rows (userData ?c')))"
    by (simp add: rows' allAbsent_replicate_Null)
  have stable: "placeholderEffect ?c' = Inr ?c'" if "columnNames (userData c) \<noteq> []"
    using that by (simp add: placeholderEffect_def record_mutation_def js_some_Null_replicate)
  show "\<exists>c'. placeholderEffect c = Inr c' \<and>
         rows (userData c') = rows (userData c) @ [?p] \<and>
         allAbsent (last (rows (userData c'))) \<and>
         (columnNames (userData c) \<noteq> [] \<longrightarrow> placeholderEffect c' = Inr c')"
    using eff rows' absent stable by blast
next
  assume h: "\<not> isSimulating c \<and> rows (userData c) \<noteq> [] \<and> data (last (rows (userData c))) = []"
  then show "allAbsent (last (rows (userData c)))"
    by (simp add: allAbsent_def js_every_def)
  from h show "placeholderEffect c = addRow c"
    by (simp add: placeholderEffect_def js_some_def)
next
  assume "rows (userData c) \<noteq> [] \<and> allAbsent (last (rows (userData c))) \<and>
    Null \<in> set (data (last (rows (userData c))))"
  then have "js_some (\<lambda>cell. cell = Null) (data (last (rows (userData c))))"
    "rows (userData c) \<noteq> []"
    by (auto simp: js_some_def list_ex_iff)
  then show "placeholderEffect c = Inr c"
    by (simp add: placeholderEffect_def)
next
  assume "isSimulating c"
  then show "placeholderEffect c = Inr c"
    by (simp add: placeholderEffect_def)
qed

text \<open>
  A data set whose last row is fully populated, the example data (its last row is the
  placeholder), the example data during a run, and the data set whose rows have no slot.
\<close>

theorem placeholder_effect_witness:
  "\<not> isSimulating fullRowContext \<and>
   \<not> js_some (\<lambda>cell. cell = Null) (data (last (rows (userData fullRowContext)))) \<and>
   placeholderEffect fullRowContext = addRow fullRowContext \<and>
   (\<exists>c'. placeholderEffect fullRowContext = Inr c' \<and>
      rows (userData c') =
        [\<lparr>data = [Val (Num 5), Val (Num 8)], assignment = Num 0\<rparr>, placeholderRow] \<and>
      placeholderEffect c' = Inr c') \<and>
   rows (userData idleContext) \<noteq> [] \<and> allAbsent (last (rows (userData idleContext))) \<and>
   Null \<in> set (data (last (rows (userData idleContext)))) \<and>
   placeholderEffect idleContext = Inr idleContext \<and>
   isSimulating runningContext \<and> placeholderEffect runningContext = Inr runningContext \<and>
   \<not> isSimulating zeroWidthContext \<and> rows (userData zeroWidthContext) \<noteq> [] \<and>
   data (last (rows (userData zeroWidthContext))) = [] \<and>
   allAbsent (last (rows (userData zeroWidthContext))) \<and>
   placeholderEffect zeroWidthContext = addRow zeroWidthContext"
proof -
  have z: "\<not> isSimulating zeroWidthContext" "rows (userData zeroWidthContext) \<noteq> []"
    "data (last (rows (userData zeroWidthContext))) = []"
    by (simp_all add: zeroWidthContext_def zeroWidthData_def)
  have zw: "allAbsent (last (rows (userData zeroWidthContext)))"
    "placeholderEffect zeroWidthContext = addRow zeroWidthContext"
    using z placeholder_effect [of zeroWidthContext] by blast+
  have f: "\<not> isSimulating fullRowContext"
    "\<not> js_some (\<lambda>cell. cell = Null) (data (last (rows (userData fullRowContext))))"
    "rows (userData fullRowContext) = [\<lparr>data = [Val (Num 5), Val (Num 8)], assignment = Num 0\<rparr>]"
    "replicate (length (columnNames (userData fullRowContext))) Null = [Null, Null]"
    "columnNames (userData fullRowContext) \<noteq> []"
    by (simp_all add: fullRowContext_def js_some_def numeral_2_eq_2)
  have i: "rows (userData idleContext) \<noteq> []" "allAbsent (last (rows (userData idleContext)))"
    "Null \<in> set (data (last (rows (userData idleContext))))"
    by (simp_all add: idleContext_def exampleData_def placeholderRow_def allAbsent_def js_every_def)
  have r: "isSimulating runningContext"
    by (simp add: runningContext_def)
  have a: "placeholderEffect fullRowContext = addRow fullRowContext"
    using f placeholder_effect [of fullRowContext] by blast
  obtain c' where c': "placeholderEffect fullRowContext = Inr c'"
    "rows (userData c') = rows (userData fullRowContext) @
       [\<lparr>data = replicate (length (columnNames (userData fullRowContext))) Null,
         assignment = Num 0\<rparr>]"
    "placeholderEffect c' = Inr c'"
    using f placeholder_effect [of fullRowContext] by blast
  have ex: "\<exists>c'. placeholderEffect fullRowContext = Inr c' \<and>
      rows (userData c') =
        [\<lparr>data = [Val (Num 5), Val (Num 8)], assignment = Num 0\<rparr>, placeholderRow] \<and>
      placeholderEffect c' = Inr c'"
    using c' f by (auto simp: placeholderRow_def)
  have b: "placeholderEffect idleContext = Inr idleContext"
    using i placeholder_effect [of idleContext] by blast
  have c: "placeholderEffect runningContext = Inr runningContext"
    using r placeholder_effect [of runningContext] by blast
  show ?thesis
    using f i r a ex b c z zw by blast
qed

text \<open>
  Claim C3 as stated fails. The import of the one-line file \<^verbatim>\<open>,,0\<close> hands over a data
  set with two fully absent rows, and the effect leaves a context that holds it as it is;
  and a last row that holds one value is not fully absent, yet the effect appends no row
  after it.
\<close>

theorem placeholder_invariant_counterexample:
  "handleFileUpload Number_decimal (Some '',,0'') idleContext =
     setUserData blankImportData idleContext \<and>
   userData blankImportContext = blankImportData \<and>
   rows blankImportData = [placeholderRow, placeholderRow] \<and>
   allAbsent placeholderRow \<and>
   placeholderEffect blankImportContext = Inr blankImportContext \<and>
   \<not> isSimulating openRowContext \<and>
   rows (userData openRowContext) = [\<lparr>data = [Val (Num 5), Null], assignment = Num 0\<rparr>] \<and>
   \<not> allAbsent (last (rows (userData openRowContext))) \<and>
   placeholderEffect openRowContext = Inr openRowContext"
proof -
  have "placeholderEffect blankImportContext = Inr blankImportContext"
    by (simp add: placeholderEffect_def blankImportContext_def blankImportData_def
        placeholderRow_def js_some_def)
  moreover have "userData blankImportContext = blankImportData"
    "rows blankImportData = [placeholderRow, placeholderRow]"
    by (simp_all add: blankImportContext_def blankImportData_def)
  moreover have "allAbsent placeholderRow"
    by (simp add: allAbsent_def js_every_def placeholderRow_def)
  moreover have "\<not> isSimulating openRowContext \<and>
      rows (userData openRowContext) = [\<lparr>data = [Val (Num 5), Null], assignment = Num 0\<rparr>] \<and>
      \<not> allAbsent (last (rows (userData openRowContext))) \<and>
      placeholderEffect openRowContext = Inr openRowContext"
    by (simp add: openRowContext_def allAbsent_def js_every_def js_some_def placeholderEffect_def)
  ultimately show ?thesis
    using upload_blank_fields by blast
qed

section \<open>Column names\<close>

lemma handleColumnNameChange_store:
  assumes "\<not> isSimulating c" "index < length (columnNames (userData c))"
  shows "handleColumnNameChange storeColumnName index v c =
     Inr (record_mutation c
       ((userData c)\<lparr>columnNames := (columnNames (userData c))[index := take 20 v]\<rparr>))"
  using assms by (simp add: handleColumnNameChange_def storeColumnName_def slice_0_20)

lemma handleColumnNameChange_spec:
  assumes "\<not> isSimulating c" "index < length (columnNames (userData c))"
  shows "handleColumnNameChange renameColumn index v c =
     handleColumnNameChange storeColumnName index v c"
  using assms
  by (simp add: handleColumnNameChange_def storeColumnName_def renameColumn_def slice_0_20)

text \<open>
  Claim C9. For every input and every index, when no run is in progress the handler
  passes the first 20 characters of the input to \<^verbatim>\<open>renameColumn\<close>, whatever that action
  is: a name of at most 20 characters, and the input itself when it has 20 characters or
  fewer. With an action that stores the name exactly as it is handed over, and an index
  that names a column, the change is not refused and the name then found in the data set
  is the first 20 characters of the input, the other names and the rows being as before;
  \<^verbatim>\<open>renameColumn\<close> as the spec describes it gives the same result.
\<close>

theorem column_name_truncated:
  "slice 0 20 v = take 20 v \<and>
   length (slice 0 20 v) \<le> 20 \<and>
   (length v \<le> 20 \<longrightarrow> slice 0 20 v = v) \<and>
   (\<not> isSimulating c \<longrightarrow>
      handleColumnNameChange rename index v c = rename index (take 20 v) c) \<and>
   (\<not> isSimulating c \<and> index < length (columnNames (userData c)) \<longrightarrow>
      (\<exists>c'. handleColumnNameChange storeColumnName index v c = Inr c' \<and>
         handleColumnNameChange renameColumn index v c = Inr c' \<and>
         columnNames (userData c') ! index = take 20 v \<and>
         length (columnNames (userData c') ! index) \<le> 20 \<and>
         (length v \<le> 20 \<longrightarrow> columnNames (userData c') ! index = v) \<and>
         length (columnNames (userData c')) = length (columnNames (userData c)) \<and>
         (\<forall>j. j \<noteq> index \<longrightarrow> columnNames (userData c') ! j = columnNames (userData c) ! j) \<and>
         rows (userData c') = rows (userData c)))"
proof (intro conjI impI)
  show "slice 0 20 v = take 20 v" "length (slice 0 20 v) \<le> 20"
    by (simp_all add: slice_0_20)
  show "slice 0 20 v = v" if "length v \<le> 20"
    using that by (simp add: slice_0_20)
  show "handleColumnNameChange rename index v c = rename index (take 20 v) c"
    if "\<not> isSimulating c"
    using that by (simp add: handleColumnNameChange_def slice_0_20)
next
  assume h: "\<not> isSimulating c \<and> index < length (columnNames (userData c))"
  let ?c' = "record_mutation c
       ((userData c)\<lparr>columnNames := (columnNames (userData c))[index := take 20 v]\<rparr>)"
  have store: "handleColumnNameChange storeColumnName index v c = Inr ?c'"
    using h by (simp add: handleColumnNameChange_store)
  then have spec: "handleColumnNameChange renameColumn index v c = Inr ?c'"
    using h by (simp add: handleColumnNameChange_spec)
  have stored: "columnNames (userData ?c') ! index = take 20 v"
    "length (columnNames (userData ?c')) = length (columnNames (userData c))"
    "\<forall>j. j \<noteq> index \<longrightarrow> columnNames (userData ?c') ! j = columnNames (userData c) ! j"
    "rows (userData ?c') = rows (userData c)"
    using h by (simp_all add: record_mutation_def)
  have short: "length (columnNames (userData ?c') ! index) \<le> 20"
    "length v \<le> 20 \<longrightarrow> columnNames (userData ?c') ! index = v"
    using h by (simp_all add: record_mutation_def)
  show "\<exists>c'. handleColumnNameChange storeColumnName index v c = Inr c' \<and>
         handleColumnNameChange renameColumn index v c = Inr c' \<and>
         columnNames (userData c') ! index = take 20 v \<and>
         length (columnNames (userData c') ! index) \<le> 20 \<and>
         (length v \<le> 20 \<longrightarrow> columnNames (userData c') ! index = v) \<and>
         length (columnNames (userData c')) = length (columnNames (userData c)) \<and>
         (\<forall>j. j \<noteq> index \<longrightarrow> columnNames (userData c') ! j = columnNames (userData c) ! j) \<and>
         rows (userData c') = rows (userData c)"
    using store spec stored short by blast
qed

text \<open>A short name is stored as it is; a name of 29 characters is cut to its first 20.\<close>

theorem column_name_truncated_witness:
  "\<not> isSimulating idleContext \<and> (0::nat) < length (columnNames (userData idleContext)) \<and>
   length ''Placebo'' \<le> 20 \<and>
   slice 0 20 ''Placebo'' = ''Placebo'' \<and>
   handleColumnNameChange storeColumnName 0 ''Placebo'' idleContext =
     storeColumnName 0 ''Placebo'' idleContext \<and>
   (\<exists>c'. handleColumnNameChange storeColumnName 0 ''Placebo'' idleContext = Inr c' \<and>
      columnNames (userData c') ! 0 = ''Placebo'') \<and>
   \<not> length ''Control group (standard care)'' \<le> 20 \<and>
   slice 0 20 ''Control group (standard care)'' = ''Control group (stand'' \<and>
   handleColumnNameChange storeColumnName 0 ''Control group (standard care)'' idleContext =
     storeColumnName 0 ''Control group (stand'' idleContext \<and>
   (\<exists>c'. handleColumnNameChange storeColumnName 0 ''Control group (standard care)'' idleContext =
        Inr c' \<and>
      handleColumnNameChange renameColumn 0 ''Control group (standard care)'' idleContext =
        Inr c' \<and>
      columnNames (userData c') ! 0 = ''Control group (stand'')"
proof -
  have h: "\<not> isSimulating idleContext" "(0::nat) < length (columnNames (userData idleContext))"
    by (simp_all add: idleContext_def exampleData_def)
  have t: "take 20 ''Placebo'' = ''Placebo''"
    "take 20 ''Control group (standard care)'' = ''Control group (stand''"
    by simp_all
  have n: "length ''Placebo'' \<le> 20" "\<not> length ''Control group (standard care)'' \<le> 20"
    by simp_all
  note short = column_name_truncated [of "''Placebo''" idleContext storeColumnName 0]
  note long = column_name_truncated
    [of "''Control group (standard care)''" idleContext storeColumnName 0]
  have s1: "slice 0 20 ''Placebo'' = take 20 ''Placebo''"
    "handleColumnNameChange storeColumnName 0 ''Placebo'' idleContext =
       storeColumnName 0 (take 20 ''Placebo'') idleContext"
    "\<exists>c'. handleColumnNameChange storeColumnName 0 ''Placebo'' idleContext = Inr c' \<and>
       columnNames (userData c') ! 0 = take 20 ''Placebo''"
    using h short by blast+
  have s2: "slice 0 20 ''Control group (standard care)'' =
      take 20 ''Control group (standard care)''"
    "handleColumnNameChange storeColumnName 0 ''Control group (standard care)'' idleContext =
       storeColumnName 0 (take 20 ''Control group (standard care)'') idleContext"
    "\<exists>c'. handleColumnNameChange storeColumnName 0 ''Control group (standard care)'' idleContext =
         Inr c' \<and>
       handleColumnNameChange renameColumn 0 ''Control group (standard care)'' idleContext =
         Inr c' \<and>
       columnNames (userData c') ! 0 = take 20 ''Control group (standard care)''"
    using h long by blast+
  show ?thesis
    using h n s1 s2 unfolding t by blast
qed

section \<open>Column averages\<close>

text \<open>
  The loop of \<^verbatim>\<open>calculateColumnAverages\<close> collects, for column \<open>j\<close>, exactly
  \<open>contributions rs j\<close>: the proof follows the two nested folds, with the accumulator
  and the start index generalised.
\<close>

lemma groupAt_collectCell:
  "groupAt (collectCell a (k, v) acc) j =
     groupAt acc j @ (if v \<noteq> Null \<and> a = Num (real k) \<and> j = k then [v] else [])"
  by (simp add: collectCell_def groupAt_def)

lemma groupAt_fold_collectCell:
  "groupAt (fold (collectCell a) (filter (\<lambda>(colIndex, v). v \<noteq> Hole) (enumerate k xs)) acc) j =
     groupAt acc j @
       (if a = Num (real j) \<and> k \<le> j \<and> j < k + length xs \<and>
           xs ! (j - k) \<noteq> Null \<and> xs ! (j - k) \<noteq> Hole
        then [xs ! (j - k)] else [])"
proof (induction xs arbitrary: k acc)
  case Nil
  then show ?case by simp
next
  case (Cons x xs)
  let ?acc = "if x = Hole then acc else collectCell a (k, x) acc"
  have "groupAt (fold (collectCell a)
          (filter (\<lambda>(colIndex, v). v \<noteq> Hole) (enumerate k (x # xs))) acc) j =
        groupAt (fold (collectCell a)
          (filter (\<lambda>(colIndex, v). v \<noteq> Hole) (enumerate (Suc k) xs)) ?acc) j"
    by simp
  also have "\<dots> = groupAt ?acc j @
       (if a = Num (real j) \<and> Suc k \<le> j \<and> j < Suc k + length xs \<and>
           xs ! (j - Suc k) \<noteq> Null \<and> xs ! (j - Suc k) \<noteq> Hole
        then [xs ! (j - Suc k)] else [])"
    by (rule Cons.IH)
  also have "\<dots> = groupAt acc j @
       (if a = Num (real j) \<and> k \<le> j \<and> j < k + length (x # xs) \<and>
           (x # xs) ! (j - k) \<noteq> Null \<and> (x # xs) ! (j - k) \<noteq> Hole
        then [(x # xs) ! (j - k)] else [])"
  proof (cases "j = k")
    case True
    then show ?thesis
      by (simp add: groupAt_collectCell)
  next
    case False
    then have "(x # xs) ! (j - k) = xs ! (j - Suc k)" if "k \<le> j"
      using that by (simp add: nth_Cons')
    with False show ?thesis
      by (auto simp: groupAt_collectCell)
  qed
  finally show ?case .
qed

lemma contribution_allAbsent:
  assumes "js_every (\<lambda>cell. cell = Null) (data row)"
  shows "contribution j row = []"
proof -
  have "\<forall>v \<in> set (data row). v = Hole \<or> v = Null"
    using assms by (auto simp: js_every_def list_all_iff)
  then show ?thesis
    by (auto simp: contribution_def)
qed

lemma groupAt_collectRow:
  "groupAt (collectRow n (i, row) acc) j = groupAt acc j @ contribution j row"
proof (cases "int i = int n - 1 \<and> js_every (\<lambda>cell. cell = Null) (data row)")
  case True
  then show ?thesis
    by (simp add: collectRow_def contribution_allAbsent)
next
  case False
  then have "collectRow n (i, row) acc =
      fold (collectCell (assignment row))
        (filter (\<lambda>(colIndex, v). v \<noteq> Hole) (enumerate 0 (data row))) acc"
    by (auto simp: collectRow_def)
  then show ?thesis
    by (simp add: groupAt_fold_collectCell contribution_def)
qed

lemma groupAt_fold_collectRow:
  "groupAt (fold (collectRow n) (enumerate k rs) acc) j = groupAt acc j @ contributions rs j"
  by (induction rs arbitrary: k acc) (simp_all add: contributions_def groupAt_collectRow)

lemma groupAt_groupsOf: "groupAt (groupsOf rs) j = contributions rs j"
  by (simp add: groupsOf_def groupAt_fold_collectRow) (simp add: groupAt_def)

lemma averages_by_contributions:
  "calculateColumnAverages names rs = map (\<lambda>j. average (contributions rs j)) [0..<length names]"
  by (simp add: calculateColumnAverages_def groupAt_groupsOf)

lemma contributions_append: "contributions (rs @ rs') j = contributions rs j @ contributions rs' j"
  by (simp add: contributions_def)

text \<open>
  Claim C10. The average shown for column \<open>j\<close> is the average of the values in slot
  \<open>j\<close> of the rows assigned to \<open>j\<close>. A row whose assignment is not \<open>j\<close> adds
  nothing to column \<open>j\<close>, so the value in the slot a paired row is not assigned to
  enters no average. A column without contributing values yields \<^verbatim>\<open>null\<close>, shown as
  \<^verbatim>\<open>--\<close>, not zero.
\<close>

theorem averages_only_assigned_slot:
  "calculateColumnAverages names rs = map (\<lambda>j. average (contributions rs j)) [0..<length names] \<and>
   (assignment row \<noteq> Num (real j) \<longrightarrow>
      contributions (rs1 @ row # rs2) j = contributions (rs1 @ rs2) j) \<and>
   (j < length names \<and> contributions rs j = [] \<longrightarrow>
      calculateColumnAverages names rs ! j = None \<and>
      averageDisplay (calculateColumnAverages names rs ! j) = Text ''--'')"
proof (intro conjI impI)
  show "calculateColumnAverages names rs =
      map (\<lambda>j. average (contributions rs j)) [0..<length names]"
    by (rule averages_by_contributions)
next
  assume "assignment row \<noteq> Num (real j)"
  then have "contribution j row = []"
    by (simp add: contribution_def)
  then show "contributions (rs1 @ row # rs2) j = contributions (rs1 @ rs2) j"
    by (simp add: contributions_def)
next
  assume h: "j < length names \<and> contributions rs j = []"
  then show "calculateColumnAverages names rs ! j = None"
    by (simp add: averages_by_contributions average_def)
  then show "averageDisplay (calculateColumnAverages names rs ! j) = Text ''--''"
    by (simp add: averageDisplay_def)
qed


text \<open>
  The paired data set: the row (5, 8) assigned to slot 0 gives the averages 5 and
  \<^verbatim>\<open>null\<close>; the 8 is counted nowhere.
\<close>

theorem averages_only_assigned_slot_witness:
  "assignment \<lparr>data = [Val (Num 5), Val (Num 8)], assignment = Num 0\<rparr> \<noteq> Num (real (Suc 0)) \<and>
   Suc 0 < length [''Control'', ''Treatment''] \<and>
   contributions (rows pairedData) (Suc 0) = [] \<and>
   calculateColumnAverages [''Control'', ''Treatment''] (rows pairedData) = [Some (Num 5), None] \<and>
   averageDisplay (calculateColumnAverages [''Control'', ''Treatment''] (rows pairedData) ! Suc 0) =
     Text ''--''"
proof -
  have c0: "contributions (rows pairedData) 0 = [Val (Num 5)]"
    by (simp add: contributions_def contribution_def pairedData_def placeholderRow_def)
  have c1: "contributions (rows pairedData) (Suc 0) = []"
    by (simp add: contributions_def contribution_def pairedData_def placeholderRow_def)
  have up: "[0..<length [''Control'', ''Treatment'']] = [0, Suc 0]"
    by (simp add: upt_rec)
  have avg: "average [Val (Num 5)] = Some (Num 5)" "average [] = None"
    by (simp_all add: average_def)
  show ?thesis
    using c1 averages_only_assigned_slot
      [of "[''Control'', ''Treatment'']" "rows pairedData"
          "\<lparr>data = [Val (Num 5), Val (Num 8)], assignment = Num 0\<rparr>" "Suc 0" "[]" "[placeholderRow]"]
    by (simp add: up c0 avg averageDisplay_def)
qed

section \<open>Statistics and the placeholder row\<close>

lemma eligibleRows_snoc_absent: "allAbsent p \<Longrightarrow> eligibleRows (rs @ [p]) = eligibleRows rs"
  by (simp add: eligibleRows_def)

lemma groupValues_snoc_absent: "allAbsent p \<Longrightarrow> groupValues g (rs @ [p]) = groupValues g rs"
  by (simp add: groupValues_def eligibleRows_snoc_absent)

lemma differenceOfMeans_snoc_absent:
  "allAbsent p \<Longrightarrow> differenceOfMeans control (rs @ [p]) = differenceOfMeans control rs"
  by (simp add: differenceOfMeans_def groupValues_snoc_absent)

lemma differenceOfMeans_no_row: "differenceOfMeans control [] = NaN"
  by (simp add: differenceOfMeans_def groupValues_def eligibleRows_def groupMean_def)

lemma observedStatistic_example: "observedStatistic 0 (rows exampleData) = Some (Num 3)"
  by (simp add: observedStatistic_def differenceOfMeans_def groupValues_def eligibleRows_def
      groupMean_def exampleData_def placeholderRow_def allAbsent_def js_every_def js_get_def
      array_index_def)

text \<open>
  Claim C7. Over a data set that holds only a fully absent row the statistic computation
  gives an undefined result, not zero: no row is eligible, the observed statistic is
  undefined and its box shows \<^verbatim>\<open>N/A\<close>, the difference of means is the sentinel
  \<^verbatim>\<open>NaN\<close>, which is never counted as extreme, and every column average is
  \<^verbatim>\<open>null\<close>, shown as \<^verbatim>\<open>--\<close>. A fully absent row at the end of any data set is
  counted in no group: the eligible rows, the values of every group, the statistic and
  the column averages are those of the rows before it. The statistic is the one modelled
  from the spec; the column averages and the two displays are the component's own.
\<close>

theorem placeholder_not_counted:
  assumes "allAbsent p"
  shows "calculateColumnAverages names [p] = replicate (length names) None \<and>
     map averageDisplay (calculateColumnAverages names [p]) =
       replicate (length names) (Text ''--'') \<and>
     averageDisplay None \<noteq> ToFixed (Num 0) 2 \<and>
     calculateColumnAverages names (rs @ [p]) =
       map (\<lambda>j. average (contributions rs j)) [0..<length names] \<and>
     eligibleRows [p] = [] \<and>
     observedStatistic control [p] = None \<and>
     observedStatisticDisplay (observedStatistic control [p]) = Text ''N/A'' \<and>
     observedStatisticDisplay (observedStatistic control [p]) \<noteq> ToFixed (Num 0) 4 \<and>
     differenceOfMeans control [p] = NaN \<and>
     differenceOfMeans control [p] \<noteq> Num 0 \<and>
     \<not> extreme observed (differenceOfMeans control [p]) \<and>
     eligibleRows (rs @ [p]) = eligibleRows rs \<and>
     groupValues g (rs @ [p]) = groupValues g rs \<and>
     differenceOfMeans control (rs @ [p]) = differenceOfMeans control rs \<and>
     observedStatistic control (rs @ [p]) = observedStatistic control rs"
proof -
  have p: "contribution j p = []" for j
    using assms by (simp add: allAbsent_def contribution_allAbsent)
  have none: "contributions (rs @ [p]) j = contributions rs j" for j rs
    by (simp add: contributions_append) (simp add: contributions_def p)
  have one: "calculateColumnAverages names [p] = replicate (length names) None"
    by (simp add: averages_by_contributions contributions_def p average_def map_replicate_const)
  have shown: "map averageDisplay (calculateColumnAverages names [p]) =
      replicate (length names) (Text ''--'')"
    by (simp add: one averageDisplay_def)
  have zero: "averageDisplay None \<noteq> ToFixed (Num 0) 2"
    by (simp add: averageDisplay_def)
  have all: "calculateColumnAverages names (rs @ [p]) =
      map (\<lambda>j. average (contributions rs j)) [0..<length names]"
    by (simp add: averages_by_contributions none)
  have eligible: "eligibleRows [p] = []"
    using assms by (simp add: eligibleRows_def)
  then have observed: "observedStatistic control [p] = None"
    by (simp add: observedStatistic_def)
  then have box: "observedStatisticDisplay (observedStatistic control [p]) = Text ''N/A''"
    "observedStatisticDisplay (observedStatistic control [p]) \<noteq> ToFixed (Num 0) 4"
    by (simp_all add: observedStatisticDisplay_def)
  have "differenceOfMeans control ([] @ [p]) = differenceOfMeans control []"
    using assms by (rule differenceOfMeans_snoc_absent)
  then have sentinel: "differenceOfMeans control [p] = NaN"
    by (simp add: differenceOfMeans_no_row)
  then have excluded: "differenceOfMeans control [p] \<noteq> Num 0"
    "\<not> extreme observed (differenceOfMeans control [p])"
    by (simp_all add: extreme_def)
  have rest: "eligibleRows (rs @ [p]) = eligibleRows rs"
    "groupValues g (rs @ [p]) = groupValues g rs"
    "differenceOfMeans control (rs @ [p]) = differenceOfMeans control rs"
    using assms
    by (simp_all add: eligibleRows_snoc_absent groupValues_snoc_absent
        differenceOfMeans_snoc_absent)
  then have same: "observedStatistic control (rs @ [p]) = observedStatistic control rs"
    by (simp add: observedStatistic_def)
  show ?thesis
    using one shown zero all eligible observed box sentinel excluded rest same by blast
qed

text \<open>
  The placeholder row alone, and the example data with its placeholder row: the averages
  are 5 and 8 and the observed statistic is 8 - 5 = 3, with and without the last row.
\<close>

theorem placeholder_not_counted_witness:
  "allAbsent placeholderRow \<and>
   calculateColumnAverages [''Control'', ''Treatment''] [placeholderRow] = [None, None] \<and>
   map averageDisplay (calculateColumnAverages [''Control'', ''Treatment''] [placeholderRow]) =
     [Text ''--'', Text ''--''] \<and>
   calculateColumnAverages [''Control'', ''Treatment''] (rows exampleData) =
     [Some (Num 5), Some (Num 8)] \<and>
   observedStatistic 0 [placeholderRow] = None \<and>
   observedStatisticDisplay (observedStatistic 0 [placeholderRow]) = Text ''N/A'' \<and>
   differenceOfMeans 0 [placeholderRow] = NaN \<and>
   observedStatistic 0 (rows exampleData) = Some (Num 3) \<and>
   observedStatistic 0
     [\<lparr>data = [Val (Num 5), Null], assignment = Num 0\<rparr>,
      \<lparr>data = [Null, Val (Num 8)], assignment = Num 1\<rparr>] = Some (Num 3)"
proof -
  let ?rs = "[\<lparr>data = [Val (Num 5), Null], assignment = Num 0\<rparr>,
       \<lparr>data = [Null, Val (Num 8)], assignment = Num 1\<rparr>]"
  have h: "allAbsent placeholderRow"
    by (simp add: allAbsent_def placeholderRow_def js_every_def)
  have r: "rows exampleData = ?rs @ [placeholderRow]"
    by (simp add: exampleData_def)
  have c0: "contributions ?rs 0 = [Val (Num 5)]"
    by (simp add: contributions_def contribution_def)
  have c1: "contributions ?rs (Suc 0) = [Val (Num 8)]"
    by (simp add: contributions_def contribution_def)
  have up: "[0..<length [''Control'', ''Treatment'']] = [0, Suc 0]"
    by (simp add: upt_rec)
  have avg: "average [Val (Num 5)] = Some (Num 5)" "average [Val (Num 8)] = Some (Num 8)"
    by (simp_all add: average_def)
  have two: "replicate (length [''Control'', ''Treatment'']) x = [x, x]" for x :: 'a
    by (simp add: numeral_2_eq_2)
  note t = placeholder_not_counted [OF h, of "[''Control'', ''Treatment'']" ?rs 0]
  have a1: "calculateColumnAverages [''Control'', ''Treatment''] [placeholderRow] = [None, None]"
    "map averageDisplay (calculateColumnAverages [''Control'', ''Treatment''] [placeholderRow]) =
       [Text ''--'', Text ''--'']"
    using t unfolding two by blast+
  have a2: "calculateColumnAverages [''Control'', ''Treatment''] (rows exampleData) =
      [Some (Num 5), Some (Num 8)]"
    using t unfolding r up by (simp add: c0 c1 avg)
  have s1: "observedStatistic 0 [placeholderRow] = None"
    "observedStatisticDisplay (observedStatistic 0 [placeholderRow]) = Text ''N/A''"
    "differenceOfMeans 0 [placeholderRow] = NaN"
    "observedStatistic 0 (?rs @ [placeholderRow]) = observedStatistic 0 ?rs"
    using t by blast+
  have s2: "observedStatistic 0 (rows exampleData) = Some (Num 3)"
    by (rule observedStatistic_example)
  then have s3: "observedStatistic 0 ?rs = Some (Num 3)"
    using s1(4) by (simp add: r)
  show ?thesis
    using h a1 a2 s1 s2 s3 by blast
qed

section \<open>The p-value\<close>

lemma pValue_bounds:
  assumes "trials \<noteq> []"
  shows "\<exists>p. pValue trials observed = Some (Num p) \<and> 0 \<le> p \<and> p \<le> 1"
proof -
  let ?k = "length (filter (extreme observed) trials)"
  have "?k \<le> length trials"
    by (rule length_filter_le)
  moreover have "0 < length trials"
    using assms by simp
  ultimately have "real ?k / real (length trials) \<le> 1"
    by simp
  moreover have "0 \<le> real ?k / real (length trials)"
    by simp
  ultimately show ?thesis
    using assms by (simp add: pValue_def)
qed

text \<open>
  Claim C6. With no trial the derived p-value is undefined and the box shows
  \<^verbatim>\<open>N/A\<close>, not a zero; a p-value that is \<^verbatim>\<open>NaN\<close> is shown as \<^verbatim>\<open>N/A\<close> too. With at
  least one trial the p-value is a number between 0 and 1, and the box shows it. The
  derivation of the p-value is the one modelled from the spec; the box is that of
  \<^verbatim>\<open>PlotDisplay.tsx\<close>.
\<close>

theorem pValue_not_available:
  "pValue [] observed = None \<and>
   pValueDisplay (pValue [] observed) = Text ''N/A'' \<and>
   pValueDisplay (Some NaN) = Text ''N/A'' \<and>
   pValueDisplay (pValue [] observed) \<noteq> ToFixed (Num 0) 4 \<and>
   (trials \<noteq> [] \<longrightarrow>
      (\<exists>p. pValue trials observed = Some (Num p) \<and> 0 \<le> p \<and> p \<le> 1 \<and>
         pValueDisplay (pValue trials observed) = ToFixed (Num p) 4))"
proof (intro conjI impI)
  assume "trials \<noteq> []"
  then obtain p where "pValue trials observed = Some (Num p)" "0 \<le> p" "p \<le> 1"
    using pValue_bounds by blast
  then show "\<exists>p. pValue trials observed = Some (Num p) \<and> 0 \<le> p \<and> p \<le> 1 \<and>
      pValueDisplay (pValue trials observed) = ToFixed (Num p) 4"
    by (simp add: pValueDisplay_def isNaN_def)
qed (simp_all add: pValue_def pValueDisplay_def isNaN_def)

text \<open>Three trials with statistics 3, -3 and 1 against an observed 3: two of three are as extreme.\<close>

theorem pValue_not_available_witness:
  "[Num 3, Num (- 3), Num 1] \<noteq> [] \<and>
   pValue [Num 3, Num (- 3), Num 1] (Num 3) = Some (Num (2 / 3)) \<and>
   pValueDisplay (pValue [Num 3, Num (- 3), Num 1] (Num 3)) = ToFixed (Num (2 / 3)) 4"
proof -
  have v: "pValue [Num 3, Num (- 3), Num 1] (Num 3) = Some (Num (2 / 3))"
    by (simp add: pValue_def extreme_def)
  show ?thesis
    using v pValue_not_available [of "Num 3" "[Num 3, Num (- 3), Num 1]"]
    by auto
qed
end
